theory Spec2Isabelle
  imports Complex_Main
begin

section \<open>Data model of the accounting workbook\<close>

text \<open>
  The session state of \<^verbatim>\<open>accounting_app.py\<close> is a set of pandas tables kept in
  \<^verbatim>\<open>st.session_state\<close>. Each table is modelled as the list of its rows, in index
  order (every table is built with \<^verbatim>\<open>ignore_index=True\<close>, so the index of a row is
  its position). Monetary columns have dtype \<^verbatim>\<open>float\<close>; an amount is a real
  number, and the operations compute over exact amounts. The income statement and the
  balance sheet are given a second time with the rounding of every float64 operation,
  in the section on float64 arithmetic. Integer columns are \<open>int\<close>. The wall clock (\<^verbatim>\<open>datetime.now()\<close>) is an explicit
  parameter of the operations that read it.
\<close>

record date =
  year :: int
  month :: nat
  day :: nat

record gl_entry =
  gl_date :: date
  gl_account :: string
  gl_debit :: real
  gl_credit :: real
  gl_description :: string

record receivable =
  r_date :: date
  r_customer :: string
  r_type :: string
  r_amount :: real
  r_description :: string

record payable =
  p_date :: date
  p_vendor_category :: string
  p_amount :: real
  p_description :: string

record inventory_item =
  inv_item :: string
  inv_quantity :: int
  inv_unit_cost :: real
  inv_selling_price :: real
  inv_last_updated :: string

record fixed_asset =
  fa_asset_tag :: string
  fa_asset_name :: string
  fa_category :: string
  fa_location :: string
  fa_acquisition_date :: date
  fa_cost :: real
  fa_salvage_value :: real
  fa_useful_life :: int
  fa_accumulated_depreciation :: real

record session =
  receivables :: "receivable list"
  payables :: "payable list"
  inventory :: "inventory_item list"
  fixed_assets :: "fixed_asset list"
  general_ledger :: "gl_entry list"

definition empty_session :: session where
  "empty_session =
     \<lparr>receivables = [], payables = [], inventory = [], fixed_assets = [],
      general_ledger = []\<rparr>"

section \<open>String helpers\<close>

text \<open>Decimal rendering of an integer inside an f-string (\<^verbatim>\<open>str(int)\<close>).\<close>

fun str_nat :: "nat \<Rightarrow> string" where
  "str_nat n =
     (if n < 10 then [''0123456789'' ! n]
      else str_nat (n div 10) @ [''0123456789'' ! (n mod 10)])"

declare str_nat.simps [simp del]

definition str_int :: "int \<Rightarrow> string" where
  "str_int i = (if i < 0 then CHR ''-'' # str_nat (nat (- i)) else str_nat (nat i))"

text \<open>\<^verbatim>\<open>str.upper()\<close> on the ASCII letters; other bytes are left as they are.\<close>

definition char_upper :: "char \<Rightarrow> char" where
  "char_upper c =
     (let n = (of_char c :: nat) in if 97 \<le> n \<and> n \<le> 122 then char_of (n - 32) else c)"

definition upper :: "string \<Rightarrow> string" where
  "upper s = map char_upper s"

text \<open>
  \<^verbatim>\<open>Series.str.contains(pat)\<close> for the three patterns the program uses, which are
  plain words without regular-expression metacharacters: \<open>pat\<close> occurs in \<open>s\<close> as a
  contiguous, case-sensitive substring.
\<close>

fun starts_with :: "string \<Rightarrow> string \<Rightarrow> bool" where
  "starts_with s [] = True"
| "starts_with [] (p # ps) = False"
| "starts_with (c # cs) (p # ps) = (c = p \<and> starts_with cs ps)"

fun str_contains :: "string \<Rightarrow> string \<Rightarrow> bool" where
  "str_contains [] pat = starts_with [] pat"
| "str_contains (c # cs) pat = (starts_with (c # cs) pat \<or> str_contains cs pat)"

section \<open>Posting to the general ledger\<close>

text \<open>
  \<^verbatim>\<open>post_to_gl\<close>, \<^verbatim>\<open>add_receivable_record\<close> and
  \<^verbatim>\<open>add_payable_record\<close> return nothing and cannot fail; each is the session
  after the call. The f-strings of the memos are written out as concatenations.
\<close>

definition post_to_gl ::
  "date \<Rightarrow> string \<Rightarrow> real \<Rightarrow> real \<Rightarrow> string \<Rightarrow> session \<Rightarrow> session" where
  "post_to_gl d account debit credit description s =
     s\<lparr>general_ledger := general_ledger s @
         [\<lparr>gl_date = d, gl_account = account, gl_debit = debit, gl_credit = credit,
           gl_description = description\<rparr>]\<rparr>"

definition add_receivable_record ::
  "date \<Rightarrow> string \<Rightarrow> string \<Rightarrow> real \<Rightarrow> string \<Rightarrow> session \<Rightarrow> session" where
  "add_receivable_record d customer record_type amount description s =
     (let s1 = s\<lparr>receivables := receivables s @
                  [\<lparr>r_date = d, r_customer = customer, r_type = record_type,
                    r_amount = amount, r_description = description\<rparr>]\<rparr>
      in if record_type = ''Cash'' then
           post_to_gl d ''Sales Revenue'' 0 amount
             (''Cash Sale to '' @ customer @ '': '' @ description)
             (post_to_gl d ''Cash'' amount 0
               (''Cash Sale to '' @ customer @ '': '' @ description) s1)
         else
           post_to_gl d ''Sales Revenue'' 0 amount
             (''Credit Sale to '' @ customer @ '': '' @ description)
             (post_to_gl d ''Accounts Receivable'' amount 0
               (''Credit Sale to '' @ customer @ '': '' @ description) s1))"

definition add_payable_record ::
  "date \<Rightarrow> string \<Rightarrow> real \<Rightarrow> string \<Rightarrow> session \<Rightarrow> session" where
  "add_payable_record d vendor_category amount description s =
     (let s1 = s\<lparr>payables := payables s @
                  [\<lparr>p_date = d, p_vendor_category = vendor_category,
                    p_amount = amount, p_description = description\<rparr>]\<rparr>
      in post_to_gl d ''Cash'' 0 amount
           (''Cash Payment for '' @ vendor_category @ '': '' @ description)
           (post_to_gl d ''Expenses'' amount 0
             (''Expense: '' @ vendor_category @ '' - '' @ description) s1))"

text \<open>
  \<^verbatim>\<open>add_sale_record\<close>: the row of the item is the first row with that name
  (\<^verbatim>\<open>.iloc[0]\<close> of the filtered table), and \<^verbatim>\<open>item_row.name\<close> is its index.
  The result is the returned pair of status and message, with the session after the call.
\<close>

fun find_index_of :: "string \<Rightarrow> inventory_item list \<Rightarrow> nat option" where
  "find_index_of name [] = None"
| "find_index_of name (r # rs) =
     (if inv_item r = name then Some 0
      else (case find_index_of name rs of None \<Rightarrow> None | Some i \<Rightarrow> Some (Suc i)))"

definition add_sale_record ::
  "string \<Rightarrow> date \<Rightarrow> string \<Rightarrow> int \<Rightarrow> string \<Rightarrow> string \<Rightarrow> session
     \<Rightarrow> string \<times> string \<times> session" where
  "add_sale_record now d item quantity customer sale_type s =
     (case find_index_of item (inventory s) of
        None \<Rightarrow> (''error'', ''Item not found in inventory.'', s)
      | Some idx \<Rightarrow>
          (let item_row = inventory s ! idx in
           if quantity > inv_quantity item_row then
             (''error'',
              ''Not enough stock. Only '' @ str_int (inv_quantity item_row)
                @ '' units available.'', s)
           else
             (let total_sales_revenue = of_int quantity * inv_selling_price item_row;
                  cost_of_goods_sold = of_int quantity * inv_unit_cost item_row;
                  s1 = s\<lparr>inventory := (inventory s)
                         [idx := item_row\<lparr>inv_quantity := inv_quantity item_row - quantity,
                                          inv_last_updated := now\<rparr>]\<rparr>;
                  s2 = (if sale_type = ''Cash'' then
                          post_to_gl d ''Cash'' total_sales_revenue 0
                            (''Cash Sale of '' @ str_int quantity @ '' units of '' @ item
                               @ '' to '' @ customer) s1
                        else
                          post_to_gl d ''Accounts Receivable'' total_sales_revenue 0
                            (''Credit Sale of '' @ str_int quantity @ '' units of '' @ item
                               @ '' to '' @ customer) s1);
                  s3 = post_to_gl d ''Sales Revenue'' 0 total_sales_revenue
                         (''Sale of '' @ str_int quantity @ '' units of '' @ item
                            @ '' to '' @ customer) s2;
                  s4 = post_to_gl d ''Cost of Goods Sold'' cost_of_goods_sold 0
                         (''COGS for '' @ str_int quantity @ '' units of '' @ item
                            @ '' sold to '' @ customer) s3;
                  s5 = post_to_gl d ''Inventory'' 0 cost_of_goods_sold
                         (''Inventory reduction for '' @ str_int quantity @ '' units of ''
                            @ item @ '' sold to '' @ customer) s4
              in (''success'', ''Sale recorded successfully and inventory updated!'', s5))))"

section \<open>Fixed assets and depreciation\<close>

definition generate_asset_tag :: "string \<Rightarrow> string \<Rightarrow> int \<Rightarrow> string \<Rightarrow> string" where
  "generate_asset_tag company category yr location =
     upper company @ ''-'' @ upper category @ ''-'' @ str_int yr @ ''-'' @ upper location"

text \<open>
  The handler of the ``Add Asset'' form (the block under \<^verbatim>\<open>if submit_asset:\<close>).
  The status is \<open>''success''\<close> where the handler calls \<^verbatim>\<open>st.success\<close> and
  \<open>''error''\<close> where it calls \<^verbatim>\<open>st.error\<close>.
\<close>

definition submit_asset ::
  "string \<Rightarrow> string \<Rightarrow> string \<Rightarrow> date \<Rightarrow> real \<Rightarrow> real \<Rightarrow> int \<Rightarrow> session
     \<Rightarrow> string \<times> string \<times> session" where
  "submit_asset asset_name asset_category asset_location acquisition_date cost salvage_value
      useful_life s =
     (if asset_name \<noteq> [] \<and> cost > 0 \<and> useful_life > 0 \<and> asset_category \<noteq> []
         \<and> asset_location \<noteq> [] then
        (let asset_tag = generate_asset_tag ''YOUR_COMPANY'' asset_category
                           (year acquisition_date) asset_location;
             s1 = s\<lparr>fixed_assets := fixed_assets s @
                    [\<lparr>fa_asset_tag = asset_tag, fa_asset_name = asset_name,
                      fa_category = asset_category, fa_location = asset_location,
                      fa_acquisition_date = acquisition_date, fa_cost = cost,
                      fa_salvage_value = salvage_value, fa_useful_life = useful_life,
                      fa_accumulated_depreciation = 0\<rparr>]\<rparr>;
             s2 = post_to_gl acquisition_date ''Fixed Assets'' cost 0
                    (''Acquisition of '' @ asset_name @ '' ('' @ asset_tag @ '')'') s1;
             s3 = post_to_gl acquisition_date ''Cash'' 0 cost
                    (''Cash payment for '' @ asset_name) s2
         in (''success'',
             ''Fixed asset '' @ [CHR 0x27] @ asset_name @ [CHR 0x27] @ '' added with tag ''
               @ [CHR 0x27] @ asset_tag @ [CHR 0x27] @ '' and posted to GL.'', s3))
      else (''error'', ''Please fill in all asset details correctly.'', s))"

text \<open>
  The loop of \<^verbatim>\<open>calculate_and_post_depreciation\<close> over
  \<^verbatim>\<open>fixed_assets.iterrows()\<close>: \<open>index\<close> is the index of \<open>row\<close> in the table.
\<close>

fun depreciation_loop :: "date \<Rightarrow> nat \<Rightarrow> fixed_asset list \<Rightarrow> session \<Rightarrow> session" where
  "depreciation_loop d index [] s = s"
| "depreciation_loop d index (row # rows) s =
     depreciation_loop d (Suc index) rows
       (if fa_useful_life row > 0 then
          (let annual_depreciation =
                 (fa_cost row - fa_salvage_value row) / of_int (fa_useful_life row);
               s1 = post_to_gl d ''Depreciation Expense'' annual_depreciation 0
                      (''Annual depreciation for '' @ fa_asset_name row) s;
               s2 = post_to_gl d ''Accumulated Depreciation'' 0 annual_depreciation
                      (''Annual depreciation for '' @ fa_asset_name row) s1;
               cur = fixed_assets s2 ! index
           in s2\<lparr>fixed_assets := (fixed_assets s2)
                  [index := cur\<lparr>fa_accumulated_depreciation :=
                                   fa_accumulated_depreciation cur + annual_depreciation\<rparr>]\<rparr>)
        else s)"

definition depreciation_posted :: "int \<Rightarrow> gl_entry list \<Rightarrow> bool" where
  "depreciation_posted current_year gl =
     (filter (\<lambda>e. gl_account e = ''Depreciation Expense'' \<and> year (gl_date e) = current_year) gl
        \<noteq> [])"

definition calculate_and_post_depreciation ::
  "date \<Rightarrow> session \<Rightarrow> string \<times> string \<times> session" where
  "calculate_and_post_depreciation d s =
     (if fixed_assets s = [] then (''warning'', ''No fixed assets to depreciate.'', s)
      else
        (let gl = general_ledger s; current_year = year d in
         if depreciation_posted current_year gl then
           (''warning'',
            ''Depreciation for '' @ str_int current_year @ '' has already been posted.'', s)
         else
           (''success'',
            ''Depreciation for '' @ str_int current_year
              @ '' calculated and posted for all assets.'',
            depreciation_loop d 0 (fixed_assets s) s)))"

section \<open>Inventory add/update\<close>

text \<open>
  The handler of the ``Add/Update Item'' form (the block under
  \<^verbatim>\<open>if submit_inventory:\<close>); \<open>now\<close> is the formatted current time.
\<close>

definition submit_inventory ::
  "string \<Rightarrow> string \<Rightarrow> int \<Rightarrow> real \<Rightarrow> real \<Rightarrow> session \<Rightarrow> string \<times> string \<times> session" where
  "submit_inventory now item_name quantity unit_cost selling_price s =
     (if item_name \<noteq> [] \<and> quantity \<ge> 0 \<and> unit_cost \<ge> 0 \<and> selling_price \<ge> 0 then
        (case find_index_of item_name (inventory s) of
           Some idx \<Rightarrow>
             (''success'',
              ''Inventory for '' @ [CHR 0x27] @ item_name @ [CHR 0x27] @ '' updated.'',
              s\<lparr>inventory := (inventory s)
                 [idx := (inventory s ! idx)
                    \<lparr>inv_quantity := quantity, inv_unit_cost := unit_cost,
                     inv_selling_price := selling_price, inv_last_updated := now\<rparr>]\<rparr>)
         | None \<Rightarrow>
             (''success'',
              ''New inventory item '' @ [CHR 0x27] @ item_name @ [CHR 0x27] @ '' added.'',
              s\<lparr>inventory := inventory s @
                 [\<lparr>inv_item = item_name, inv_quantity = quantity, inv_unit_cost = unit_cost,
                   inv_selling_price = selling_price, inv_last_updated = now\<rparr>]\<rparr>))
      else (''error'', ''Please fill in all inventory details correctly.'', s))"

section \<open>Sequences of operations\<close>

text \<open>
  One user action of a session. Receivables, payables, sales and depreciation runs are the
  calls of the program's functions; an acquisition and an inventory entry are the form
  handlers, which are the only code that performs them.
\<close>

datatype operation =
    Receivable date string string real string
  | Payable date string real string
  | Sale string date string int string string
  | Acquire string string string date real real int
  | Depreciate date
  | InventoryUpsert string string int real real

fun apply_op :: "operation \<Rightarrow> session \<Rightarrow> session" where
  "apply_op (Receivable d customer record_type amount description) s =
     add_receivable_record d customer record_type amount description s"
| "apply_op (Payable d vendor_category amount description) s =
     add_payable_record d vendor_category amount description s"
| "apply_op (Sale now d item quantity customer sale_type) s =
     snd (snd (add_sale_record now d item quantity customer sale_type s))"
| "apply_op (Acquire asset_name category location d cost salvage life) s =
     snd (snd (submit_asset asset_name category location d cost salvage life s))"
| "apply_op (Depreciate d) s = snd (snd (calculate_and_post_depreciation d s))"
| "apply_op (InventoryUpsert now item_name quantity unit_cost selling_price) s =
     snd (snd (submit_inventory now item_name quantity unit_cost selling_price s))"

fun run_ops :: "operation list \<Rightarrow> session \<Rightarrow> session" where
  "run_ops [] s = s"
| "run_ops (op # ops) s = run_ops ops (apply_op op s)"

section \<open>Statement generators\<close>

text \<open>
  \<^verbatim>\<open>gl[gl['Account'] == a]['Debit'].sum()\<close> and the same for the credit column.
\<close>

definition account_debit :: "string \<Rightarrow> gl_entry list \<Rightarrow> real" where
  "account_debit a gl = sum_list (map gl_debit (filter (\<lambda>e. gl_account e = a) gl))"

definition account_credit :: "string \<Rightarrow> gl_entry list \<Rightarrow> real" where
  "account_credit a gl = sum_list (map gl_credit (filter (\<lambda>e. gl_account e = a) gl))"

text \<open>The sums of the whole Debit and Credit columns of the ledger.\<close>

definition total_debit :: "gl_entry list \<Rightarrow> real" where
  "total_debit gl = sum_list (map gl_debit gl)"

definition total_credit :: "gl_entry list \<Rightarrow> real" where
  "total_credit gl = sum_list (map gl_credit gl)"

text \<open>
  A statement is the list of its rows; the empty table is the empty list. The generators
  of this section add and subtract exactly; \<open>generate_income_statement_f64\<close> and
  \<open>generate_balance_sheet_f64\<close> below round as the program does.
\<close>

definition generate_income_statement :: "gl_entry list \<Rightarrow> (string \<times> real) list" where
  "generate_income_statement gl =
     (if gl = [] then []
      else
        (let revenue = account_credit ''Sales Revenue'' gl;
             cogs = account_debit ''Cost of Goods Sold'' gl;
             gross_profit = revenue - cogs;
             expenses = account_debit ''Expenses'' gl;
             depreciation_expense = account_debit ''Depreciation Expense'' gl;
             total_operating_expenses = expenses + depreciation_expense;
             net_income = gross_profit - total_operating_expenses
         in [(''Sales Revenue'', revenue),
             (''Less: Cost of Goods Sold'', - cogs),
             (''Gross Profit'', gross_profit),
             (''Less: Operating Expenses'', - expenses),
             (''Less: Depreciation Expense'', - depreciation_expense),
             (''Net Income (Loss)'', net_income)]))"

record bs_row =
  bs_category :: string
  bs_account :: string
  bs_amount :: real

definition generate_balance_sheet :: "gl_entry list \<Rightarrow> bs_row list" where
  "generate_balance_sheet gl =
     (if gl = [] then []
      else
        (let cash = account_debit ''Cash'' gl - account_credit ''Cash'' gl;
             accounts_receivable = account_debit ''Accounts Receivable'' gl
                                     - account_credit ''Accounts Receivable'' gl;
             inventory_amount = account_debit ''Inventory'' gl - account_credit ''Inventory'' gl;
             fixed_assets_cost = account_debit ''Fixed Assets'' gl;
             accumulated_depreciation = account_credit ''Accumulated Depreciation'' gl;
             net_fixed_assets = fixed_assets_cost - accumulated_depreciation;
             total_current_assets = cash + accounts_receivable + inventory_amount;
             total_non_current_assets = net_fixed_assets;
             total_assets = total_current_assets + total_non_current_assets;
             accounts_payable = account_credit ''Accounts Payable'' gl
                                  - account_debit ''Accounts Payable'' gl;
             net_income = (if generate_income_statement gl \<noteq> []
                           then snd (last (generate_income_statement gl)) else 0);
             initial_equity = 0;
             retained_earnings = net_income;
             total_equity = initial_equity + retained_earnings;
             total_liabilities = accounts_payable;
             total_liabilities_equity = total_liabilities + total_equity
         in [\<lparr>bs_category = ''Current Assets'', bs_account = ''Cash'', bs_amount = cash\<rparr>,
             \<lparr>bs_category = ''Current Assets'', bs_account = ''Accounts Receivable'',
              bs_amount = accounts_receivable\<rparr>,
             \<lparr>bs_category = ''Current Assets'', bs_account = ''Inventory'',
              bs_amount = inventory_amount\<rparr>,
             \<lparr>bs_category = ''Total Current Assets'', bs_account = [],
              bs_amount = total_current_assets\<rparr>,
             \<lparr>bs_category = ''Non-Current Assets'', bs_account = ''Fixed Assets (Net)'',
              bs_amount = net_fixed_assets\<rparr>,
             \<lparr>bs_category = ''Total Assets'', bs_account = [], bs_amount = total_assets\<rparr>,
             \<lparr>bs_category = ''Current Liabilities'', bs_account = ''Accounts Payable'',
              bs_amount = accounts_payable\<rparr>,
             \<lparr>bs_category = ''Total Liabilities'', bs_account = [],
              bs_amount = total_liabilities\<rparr>,
             \<lparr>bs_category = ''Equity'',
              bs_account = ''Owner'' @ [CHR 0x27] @ ''s Equity (Simplified)'',
              bs_amount = total_equity\<rparr>,
             \<lparr>bs_category = ''Total Liabilities & Equity'', bs_account = [],
              bs_amount = total_liabilities_equity\<rparr>]))"

text \<open>
  The amount the ``Generate Balance Sheet'' button reads back for a category:
  \<^verbatim>\<open>bs_df[bs_df['Category'] == c]['Amount'].iloc[0] if c in bs_df['Category'].values else 0\<close>.
\<close>

definition category_amount :: "string \<Rightarrow> bs_row list \<Rightarrow> real" where
  "category_amount c rows =
     (case filter (\<lambda>r. bs_category r = c) rows of [] \<Rightarrow> 0 | r # _ \<Rightarrow> bs_amount r)"

definition generate_cash_flow_statement :: "gl_entry list \<Rightarrow> (string \<times> real) list" where
  "generate_cash_flow_statement gl =
     (if gl = [] then []
      else
        (let cash_in_from_sales = sum_list (map gl_debit (filter
               (\<lambda>e. gl_account e = ''Cash'' \<and> gl_debit e > 0
                    \<and> str_contains (gl_description e) ''Sale'') gl));
             cash_out_for_expenses = sum_list (map gl_credit (filter
               (\<lambda>e. gl_account e = ''Cash'' \<and> gl_credit e > 0
                    \<and> str_contains (gl_description e) ''Payment'') gl));
             net_cash_operating = cash_in_from_sales - cash_out_for_expenses;
             cash_out_fixed_assets = sum_list (map gl_credit (filter
               (\<lambda>e. gl_account e = ''Cash'' \<and> gl_credit e > 0
                    \<and> str_contains (gl_description e) ''Acquisition'') gl));
             net_cash_investing = - cash_out_fixed_assets;
             net_cash_financing = 0;
             net_increase_decrease_in_cash =
               net_cash_operating + net_cash_investing + net_cash_financing;
             beginning_cash_balance = 0;
             ending_cash_balance = beginning_cash_balance + net_increase_decrease_in_cash
         in [(''Net Cash from Operating Activities'', net_cash_operating),
             (''Net Cash from Investing Activities'', net_cash_investing),
             (''Net Cash from Financing Activities'', net_cash_financing),
             (''Net Increase (Decrease) in Cash'', net_increase_decrease_in_cash),
             (''Beginning Cash Balance'', beginning_cash_balance),
             (''Ending Cash Balance'', ending_cash_balance)]))"

section \<open>Analytics on uploaded snapshots\<close>

text \<open>
  An uploaded snapshot is a table with the columns \<^verbatim>\<open>Item\<close> and \<^verbatim>\<open>Amount\<close>
  (the upload handler keeps no other table): a list of pairs.
  \<^verbatim>\<open>df[df['Item'] == name]['Amount'].sum()\<close> is \<open>item_sum\<close>.
\<close>

type_synonym snapshot = "(string \<times> real) list"

definition item_sum :: "snapshot \<Rightarrow> string \<Rightarrow> real" where
  "item_sum df name = sum_list (map snd (filter (\<lambda>r. fst r = name) df))"

text \<open>
  A ratio is a finite number or \<^verbatim>\<open>float('inf')\<close>. The body of
  \<^verbatim>\<open>calculate_ratios\<close> runs inside \<^verbatim>\<open>try\<close>; on a snapshot, which has both
  columns, no statement of it raises (every division is guarded), so the result is always
  the filled dictionary, kept here in insertion order. A number used as a condition is
  true when it is not 0.
\<close>

datatype pyfloat = Fin real | PosInf

definition calculate_ratios :: "snapshot \<Rightarrow> snapshot \<Rightarrow> (string \<times> pyfloat) list" where
  "calculate_ratios is_df bs_df =
     (let revenue = item_sum is_df ''Sales Revenue'';
          cogs = item_sum is_df ''Cost of Goods Sold'';
          gross_profit = revenue - cogs;
          operating_expenses = item_sum is_df ''Operating Expenses'';
          interest_expense = item_sum is_df ''Interest Expense'';
          taxes = item_sum is_df ''Taxes'';
          net_income = revenue - cogs - operating_expenses - interest_expense - taxes;
          cash = item_sum bs_df ''Cash'';
          accounts_receivable = item_sum bs_df ''Accounts Receivable'';
          inventory_amount = item_sum bs_df ''Inventory'';
          current_assets = cash + accounts_receivable + inventory_amount;
          fixed_assets_net = item_sum bs_df ''Fixed Assets (Net)'';
          total_assets = current_assets + fixed_assets_net;
          accounts_payable = item_sum bs_df ''Accounts Payable'';
          current_liabilities = accounts_payable;
          long_term_debt = (if ''Long-term Debt'' \<in> set (map fst bs_df)
                            then item_sum bs_df ''Long-term Debt'' else 0);
          total_liabilities = current_liabilities + long_term_debt;
          owner_equity = item_sum bs_df (''Owner'' @ [CHR 0x27] @ ''s Equity (Simplified)'')
      in [(''Gross Profit Margin'',
             if revenue \<noteq> 0 then Fin (gross_profit / revenue) else Fin 0),
          (''Net Profit Margin'',
             if revenue \<noteq> 0 then Fin (net_income / revenue) else Fin 0),
          (''Current Ratio'',
             if current_liabilities \<noteq> 0 then Fin (current_assets / current_liabilities)
             else PosInf),
          (''Quick Ratio'',
             if current_liabilities \<noteq> 0
             then Fin ((current_assets - inventory_amount) / current_liabilities)
             else PosInf),
          (''Debt-to-Equity Ratio'',
             if owner_equity \<noteq> 0 then Fin (total_liabilities / owner_equity) else PosInf),
          (''Accounts Receivable Turnover (Days)'',
             if accounts_receivable \<noteq> 0 \<and> revenue \<noteq> 0
             then Fin (365 / (revenue / accounts_receivable)) else Fin 0),
          (''Return on Assets (ROA)'',
             if total_assets \<noteq> 0 then Fin (net_income / total_assets) else Fin 0),
          (''Return on Equity (ROE)'',
             if owner_equity \<noteq> 0 then Fin (net_income / owner_equity) else Fin 0)])"

text \<open>The value stored under a key of the returned dictionary.\<close>

definition ratio :: "(string \<times> pyfloat) list \<Rightarrow> string \<Rightarrow> pyfloat option" where
  "ratio ratios name = map_of ratios name"

record forecast_is_row =
  fi_year :: int
  fi_sales_revenue :: real
  fi_cost_of_goods_sold :: real
  fi_gross_profit :: real
  fi_operating_expenses :: real
  fi_net_income :: real

record forecast_bs_row =
  fb_year :: int
  fb_cash :: real
  fb_accounts_receivable :: real
  fb_inventory :: real
  fb_current_assets :: real
  fb_fixed_assets_net :: real
  fb_total_assets :: real
  fb_accounts_payable :: real
  fb_long_term_debt :: real
  fb_total_liabilities :: real
  fb_owner_equity :: real
  fb_total_liabilities_equity :: real

text \<open>The \<^verbatim>\<open>prev_*\<close> variables that one iteration of the forecast hands to the next.\<close>

record forecast_prev =
  prev_revenue :: real
  prev_cogs :: real
  prev_op_exp :: real
  prev_net_income :: real
  prev_cash :: real
  prev_ar :: real
  prev_inv :: real
  prev_fixed_assets_net :: real
  prev_ap :: real
  prev_lt_debt :: real
  prev_owner_equity :: real

text \<open>
  One pass through the body of \<^verbatim>\<open>for i in range(1, years + 1)\<close>, with loop
  variable \<open>i\<close>: the row written to each forecast table and the \<^verbatim>\<open>prev_*\<close>
  variables after the pass. \<open>now_year\<close> is \<^verbatim>\<open>datetime.now().year\<close>.
\<close>

definition forecast_year ::
  "int \<Rightarrow> int \<Rightarrow> real \<Rightarrow> real \<Rightarrow> real \<Rightarrow> forecast_prev
     \<Rightarrow> forecast_is_row \<times> forecast_bs_row \<times> forecast_prev" where
  "forecast_year i now_year revenue_growth cogs_pct_revenue op_exp_pct_revenue prev =
     (let proj_revenue = prev_revenue prev * (1 + revenue_growth / 100);
          proj_cogs = proj_revenue * (cogs_pct_revenue / 100);
          proj_gross_profit = proj_revenue - proj_cogs;
          proj_op_exp = proj_revenue * (op_exp_pct_revenue / 100);
          proj_net_income = proj_gross_profit - proj_op_exp;
          is_row = \<lparr>fi_year = now_year + i, fi_sales_revenue = proj_revenue,
                    fi_cost_of_goods_sold = proj_cogs, fi_gross_profit = proj_gross_profit,
                    fi_operating_expenses = proj_op_exp, fi_net_income = proj_net_income\<rparr>;
          proj_ar = proj_revenue * (1 / 10);
          proj_inv = proj_cogs * (5 / 100);
          proj_ap = proj_cogs * (5 / 100);
          proj_cash = prev_cash prev + proj_net_income - (proj_ar - prev_ar prev)
                        - (proj_inv - prev_inv prev) + (proj_ap - prev_ap prev);
          proj_current_assets = proj_cash + proj_ar + proj_inv;
          proj_fixed_assets_net = prev_fixed_assets_net prev;
          proj_total_assets = proj_current_assets + proj_fixed_assets_net;
          proj_current_liabilities = proj_ap;
          proj_lt_debt = prev_lt_debt prev;
          proj_total_liabilities = proj_current_liabilities + proj_lt_debt;
          proj_owner_equity = prev_owner_equity prev + proj_net_income;
          proj_total_liabilities_equity = proj_total_liabilities + proj_owner_equity;
          bs_row = \<lparr>fb_year = now_year + i, fb_cash = proj_cash,
                    fb_accounts_receivable = proj_ar, fb_inventory = proj_inv,
                    fb_current_assets = proj_current_assets,
                    fb_fixed_assets_net = proj_fixed_assets_net,
                    fb_total_assets = proj_total_assets, fb_accounts_payable = proj_ap,
                    fb_long_term_debt = proj_lt_debt,
                    fb_total_liabilities = proj_total_liabilities,
                    fb_owner_equity = proj_owner_equity,
                    fb_total_liabilities_equity = proj_total_liabilities_equity\<rparr>
      in (is_row, bs_row,
          \<lparr>prev_revenue = proj_revenue, prev_cogs = proj_cogs,
           prev_op_exp = proj_op_exp, prev_net_income = proj_net_income,
           prev_cash = proj_cash, prev_ar = proj_ar, prev_inv = proj_inv,
           prev_fixed_assets_net = proj_fixed_assets_net, prev_ap = proj_ap,
           prev_lt_debt = proj_lt_debt, prev_owner_equity = proj_owner_equity\<rparr>))"

text \<open>The loop itself: \<open>n\<close> passes remain and the next one has loop variable \<open>i\<close>.\<close>

fun forecast_loop ::
  "nat \<Rightarrow> int \<Rightarrow> int \<Rightarrow> real \<Rightarrow> real \<Rightarrow> real \<Rightarrow> forecast_prev
     \<Rightarrow> forecast_is_row list \<times> forecast_bs_row list" where
  "forecast_loop 0 i now_year revenue_growth cogs_pct_revenue op_exp_pct_revenue prev = ([], [])"
| "forecast_loop (Suc n) i now_year revenue_growth cogs_pct_revenue op_exp_pct_revenue prev =
     (case forecast_year i now_year revenue_growth cogs_pct_revenue op_exp_pct_revenue prev of
        (is_row, bs_row, next_prev) \<Rightarrow>
          (case forecast_loop n (i + 1) now_year revenue_growth cogs_pct_revenue
                  op_exp_pct_revenue next_prev of
             (forecast_is, forecast_bs) \<Rightarrow> (is_row # forecast_is, bs_row # forecast_bs)))"

text \<open>
  \<^verbatim>\<open>forecast_financials\<close> returns \<^verbatim>\<open>(None, None)\<close> for an empty table, here
  \<open>None\<close>. The tests \<^verbatim>\<open>'Amount' in df.columns\<close> hold for every snapshot.
\<close>

definition forecast_financials ::
  "int \<Rightarrow> snapshot \<Rightarrow> snapshot \<Rightarrow> int \<Rightarrow> real \<Rightarrow> real \<Rightarrow> real
     \<Rightarrow> (forecast_is_row list \<times> forecast_bs_row list) option" where
  "forecast_financials now_year is_df bs_df years revenue_growth cogs_pct_revenue
      op_exp_pct_revenue =
     (if is_df = [] \<or> bs_df = [] then None
      else
        Some (forecast_loop (nat years) 1 now_year revenue_growth cogs_pct_revenue
                op_exp_pct_revenue
                \<lparr>prev_revenue = item_sum is_df ''Sales Revenue'',
                 prev_cogs = item_sum is_df ''Cost of Goods Sold'',
                 prev_op_exp = item_sum is_df ''Operating Expenses'',
                 prev_net_income = item_sum is_df ''Net Income (Loss)'',
                 prev_cash = item_sum bs_df ''Cash'',
                 prev_ar = item_sum bs_df ''Accounts Receivable'',
                 prev_inv = item_sum bs_df ''Inventory'',
                 prev_fixed_assets_net = item_sum bs_df ''Fixed Assets (Net)'',
                 prev_ap = item_sum bs_df ''Accounts Payable'',
                 prev_lt_debt = (if ''Long-term Debt'' \<in> set (map fst bs_df)
                                 then item_sum bs_df ''Long-term Debt'' else 0),
                 prev_owner_equity =
                   item_sum bs_df (''Owner'' @ [CHR 0x27] @ ''s Equity (Simplified)'')\<rparr>))"

section \<open>The balance sheet in float64 arithmetic\<close>

text \<open>
  The columns \<^verbatim>\<open>Debit\<close> and \<^verbatim>\<open>Credit\<close> have dtype \<^verbatim>\<open>float\<close>, so every
  sum and difference of \<^verbatim>\<open>generate_income_statement\<close> and
  \<^verbatim>\<open>generate_balance_sheet\<close> is an IEEE 754 double-precision operation: the exact
  result rounded to the nearest double, ties to the even significand. \<open>round_f64\<close> is
  that rounding on the reals, with the fixed spacing of the subnormal range below the
  exponent -1022. Overflow to infinity (a result of magnitude 2 to the power 1024 or more)
  has no value among the reals and is outside this model. \<open>bit_length n\<close> is the number
  of binary digits of \<open>n\<close>, \<open>pow2 z\<close> is 2 to the power \<open>z\<close>, and \<open>f64_exponent x\<close> is
  the exponent \<open>e\<close> for which \<open>\<bar>x\<bar>\<close> lies between \<open>pow2 e\<close> and \<open>pow2 (e + 1)\<close>.
\<close>

function bit_length :: "int \<Rightarrow> int" where
  "bit_length n = (if n \<le> 0 then 0 else bit_length (n div 2) + 1)"
  by pat_completeness auto
termination
  by (relation "measure nat") auto

declare bit_length.simps [simp del]

definition pow2 :: "int \<Rightarrow> real" where
  "pow2 z = (if 0 \<le> z then 2 ^ nat z else 1 / 2 ^ nat (- z))"

definition f64_exponent :: "real \<Rightarrow> int" where
  "f64_exponent x =
     (let a = \<bar>x\<bar> in
      if 1 \<le> a then bit_length \<lfloor>a\<rfloor> - 1
      else (let k = bit_length \<lfloor>1 / a\<rfloor> in
            if a = pow2 (1 - k) then 1 - k else - k))"

definition round_half_even :: "real \<Rightarrow> int" where
  "round_half_even q =
     (let f = \<lfloor>q\<rfloor>; r = q - of_int f in
      if r < 1 / 2 then f else if 1 / 2 < r then f + 1 else if even f then f else f + 1)"

definition round_f64 :: "real \<Rightarrow> real" where
  "round_f64 x =
     (if x = 0 then 0
      else (let ulp = pow2 (max (f64_exponent x) (- 1022) - 52)
            in of_int (round_half_even (x / ulp)) * ulp))"

text \<open>
  \<^verbatim>\<open>Series.sum()\<close> of a float column, adding from the first row to the last. On a long
  column the library may group the additions differently; on a column of one or two rows,
  as in the evaluation below, every grouping adds the same two numbers once.
\<close>

definition f64_sum :: "real list \<Rightarrow> real" where
  "f64_sum xs = foldl (\<lambda>acc x. round_f64 (acc + x)) 0 xs"

definition f64_account_debit :: "string \<Rightarrow> gl_entry list \<Rightarrow> real" where
  "f64_account_debit a gl = f64_sum (map gl_debit (filter (\<lambda>e. gl_account e = a) gl))"

definition f64_account_credit :: "string \<Rightarrow> gl_entry list \<Rightarrow> real" where
  "f64_account_credit a gl = f64_sum (map gl_credit (filter (\<lambda>e. gl_account e = a) gl))"

definition generate_income_statement_f64 :: "gl_entry list \<Rightarrow> (string \<times> real) list" where
  "generate_income_statement_f64 gl =
     (if gl = [] then []
      else
        (let revenue = f64_account_credit ''Sales Revenue'' gl;
             cogs = f64_account_debit ''Cost of Goods Sold'' gl;
             gross_profit = round_f64 (revenue - cogs);
             expenses = f64_account_debit ''Expenses'' gl;
             depreciation_expense = f64_account_debit ''Depreciation Expense'' gl;
             total_operating_expenses = round_f64 (expenses + depreciation_expense);
             net_income = round_f64 (gross_profit - total_operating_expenses)
         in [(''Sales Revenue'', revenue),
             (''Less: Cost of Goods Sold'', - cogs),
             (''Gross Profit'', gross_profit),
             (''Less: Operating Expenses'', - expenses),
             (''Less: Depreciation Expense'', - depreciation_expense),
             (''Net Income (Loss)'', net_income)]))"

definition generate_balance_sheet_f64 :: "gl_entry list \<Rightarrow> bs_row list" where
  "generate_balance_sheet_f64 gl =
     (if gl = [] then []
      else
        (let cash = round_f64 (f64_account_debit ''Cash'' gl - f64_account_credit ''Cash'' gl);
             accounts_receivable =
               round_f64 (f64_account_debit ''Accounts Receivable'' gl
                            - f64_account_credit ''Accounts Receivable'' gl);
             inventory_amount =
               round_f64 (f64_account_debit ''Inventory'' gl
                            - f64_account_credit ''Inventory'' gl);
             fixed_assets_cost = f64_account_debit ''Fixed Assets'' gl;
             accumulated_depreciation = f64_account_credit ''Accumulated Depreciation'' gl;
             net_fixed_assets = round_f64 (fixed_assets_cost - accumulated_depreciation);
             total_current_assets =
               round_f64 (round_f64 (cash + accounts_receivable) + inventory_amount);
             total_non_current_assets = net_fixed_assets;
             total_assets = round_f64 (total_current_assets + total_non_current_assets);
             accounts_payable =
               round_f64 (f64_account_credit ''Accounts Payable'' gl
                            - f64_account_debit ''Accounts Payable'' gl);
             net_income = (if generate_income_statement_f64 gl \<noteq> []
                           then snd (last (generate_income_statement_f64 gl)) else 0);
             initial_equity = 0;
             retained_earnings = net_income;
             total_equity = round_f64 (initial_equity + retained_earnings);
             total_liabilities = accounts_payable;
             total_liabilities_equity = round_f64 (total_liabilities + total_equity)
         in [\<lparr>bs_category = ''Current Assets'', bs_account = ''Cash'', bs_amount = cash\<rparr>,
             \<lparr>bs_category = ''Current Assets'', bs_account = ''Accounts Receivable'',
              bs_amount = accounts_receivable\<rparr>,
             \<lparr>bs_category = ''Current Assets'', bs_account = ''Inventory'',
              bs_amount = inventory_amount\<rparr>,
             \<lparr>bs_category = ''Total Current Assets'', bs_account = [],
              bs_amount = total_current_assets\<rparr>,
             \<lparr>bs_category = ''Non-Current Assets'', bs_account = ''Fixed Assets (Net)'',
              bs_amount = net_fixed_assets\<rparr>,
             \<lparr>bs_category = ''Total Assets'', bs_account = [], bs_amount = total_assets\<rparr>,
             \<lparr>bs_category = ''Current Liabilities'', bs_account = ''Accounts Payable'',
              bs_amount = accounts_payable\<rparr>,
             \<lparr>bs_category = ''Total Liabilities'', bs_account = [],
              bs_amount = total_liabilities\<rparr>,
             \<lparr>bs_category = ''Equity'',
              bs_account = ''Owner'' @ [CHR 0x27] @ ''s Equity (Simplified)'',
              bs_amount = total_equity\<rparr>,
             \<lparr>bs_category = ''Total Liabilities & Equity'', bs_account = [],
              bs_amount = total_liabilities_equity\<rparr>]))"

text \<open>
  What the ``Generate Balance Sheet'' button does with the table: \<open>''info''\<close> for
  \<^verbatim>\<open>st.info\<close> on an empty table, otherwise \<open>''error''\<close> for the
  \<^verbatim>\<open>st.error\<close> ``Assets do NOT equal Liabilities + Equity! (This indicates an
  issue)'' when \<^verbatim>\<open>abs(total_assets - total_liabilities_equity) > 0.01\<close>, and
  \<open>''success''\<close> for the \<^verbatim>\<open>st.success\<close> ``Assets = Liabilities + Equity!''. The
  literal \<^verbatim>\<open>0.01\<close> is the double nearest to one hundredth.
\<close>

definition balance_sheet_check_f64 :: "bs_row list \<Rightarrow> string" where
  "balance_sheet_check_f64 rows =
     (if rows = [] then ''info''
      else
        (let total_assets = category_amount ''Total Assets'' rows;
             total_liabilities_equity = category_amount ''Total Liabilities & Equity'' rows
         in if \<bar>round_f64 (total_assets - total_liabilities_equity)\<bar> > round_f64 (1 / 100)
            then ''error'' else ''success''))"

section \<open>Notions used in the statements\<close>

text \<open>A batch of ledger entries whose debits and credits have the same sum.\<close>

definition balanced :: "gl_entry list \<Rightarrow> bool" where
  "balanced b = (total_debit b = total_credit b)"

text \<open>
  Total assets minus total liabilities and equity, written out in terms of the account sums
  the balance sheet and the income statement are computed from.
\<close>

definition assets_minus_claims :: "gl_entry list \<Rightarrow> real" where
  "assets_minus_claims gl =
     (account_debit ''Cash'' gl - account_credit ''Cash'' gl
        + (account_debit ''Accounts Receivable'' gl - account_credit ''Accounts Receivable'' gl)
        + (account_debit ''Inventory'' gl - account_credit ''Inventory'' gl)
        + (account_debit ''Fixed Assets'' gl - account_credit ''Accumulated Depreciation'' gl))
     - (account_credit ''Accounts Payable'' gl - account_debit ''Accounts Payable'' gl
        + (account_credit ''Sales Revenue'' gl - account_debit ''Cost of Goods Sold'' gl
           - (account_debit ''Expenses'' gl + account_debit ''Depreciation Expense'' gl)))"

text \<open>
  The depreciation run as the specification words it: the straight-line amount of one
  year, the pair of entries posted for an asset, and the asset after the run.
\<close>

definition spec_annual_depreciation :: "fixed_asset \<Rightarrow> real" where
  "spec_annual_depreciation a =
     (fa_cost a - fa_salvage_value a) / of_int (fa_useful_life a)"

definition spec_depreciation_entries :: "date \<Rightarrow> fixed_asset \<Rightarrow> gl_entry list" where
  "spec_depreciation_entries d a =
     [\<lparr>gl_date = d, gl_account = ''Depreciation Expense'',
       gl_debit = spec_annual_depreciation a, gl_credit = 0,
       gl_description = ''Annual depreciation for '' @ fa_asset_name a\<rparr>,
      \<lparr>gl_date = d, gl_account = ''Accumulated Depreciation'', gl_debit = 0,
       gl_credit = spec_annual_depreciation a,
       gl_description = ''Annual depreciation for '' @ fa_asset_name a\<rparr>]"

definition spec_depreciated :: "fixed_asset \<Rightarrow> fixed_asset" where
  "spec_depreciated a =
     (if fa_useful_life a > 0
      then a\<lparr>fa_accumulated_depreciation :=
               fa_accumulated_depreciation a + spec_annual_depreciation a\<rparr>
      else a)"

text \<open>
  The preconditions the data model puts on a fixed asset, and the relation between an asset
  and the same asset at a later time: only its accumulated depreciation may differ, and it
  has not decreased if the salvage value does not exceed the cost.
\<close>

definition data_model_asset :: "fixed_asset \<Rightarrow> bool" where
  "data_model_asset a =
     (fa_cost a > 0 \<and> fa_salvage_value a \<ge> 0 \<and> fa_useful_life a > 0)"

definition asset_later :: "fixed_asset \<Rightarrow> fixed_asset \<Rightarrow> bool" where
  "asset_later a b =
     (b = a\<lparr>fa_accumulated_depreciation := fa_accumulated_depreciation b\<rparr>
      \<and> (fa_salvage_value a \<le> fa_cost a \<longrightarrow>
            fa_accumulated_depreciation a \<le> fa_accumulated_depreciation b))"

text \<open>The register after an operation: every asset is still there, possibly later.\<close>

definition register_later :: "fixed_asset list \<Rightarrow> fixed_asset list \<Rightarrow> bool" where
  "register_later xs ys =
     (length xs \<le> length ys \<and> (\<forall>i<length xs. asset_later (xs ! i) (ys ! i)))"

text \<open>Below its cost, an asset of a session never has negative accumulated depreciation.\<close>

definition nonneg_register :: "fixed_asset list \<Rightarrow> bool" where
  "nonneg_register xs =
     (\<forall>a\<in>set xs. fa_salvage_value a \<le> fa_cost a \<longrightarrow> 0 \<le> fa_accumulated_depreciation a)"

text \<open>
  Assets minus liabilities and equity of the figures one forecast year hands to the next.
\<close>

definition prev_gap :: "forecast_prev \<Rightarrow> real" where
  "prev_gap p =
     (prev_cash p + prev_ar p + prev_inv p + prev_fixed_assets_net p)
     - (prev_ap p + prev_lt_debt p + prev_owner_equity p)"

section \<open>Example data\<close>

text \<open>Concrete sessions and snapshots on which the theorems are instantiated.\<close>

definition widget_row :: inventory_item where
  "widget_row = \<lparr>inv_item = ''Widget'', inv_quantity = 7, inv_unit_cost = 5,
                  inv_selling_price = 8, inv_last_updated = ''2025-01-14 09:00:00''\<rparr>"

definition gadget_row :: inventory_item where
  "gadget_row = \<lparr>inv_item = ''Gadget'', inv_quantity = 2, inv_unit_cost = 30,
                  inv_selling_price = 45, inv_last_updated = ''2025-01-10 16:30:00''\<rparr>"

definition stocked_session :: session where
  "stocked_session = empty_session\<lparr>inventory := [widget_row, gadget_row]\<rparr>"

definition truck :: fixed_asset where
  "truck = \<lparr>fa_asset_tag = ''YOUR_COMPANY-VEHICLE-2025-HQ'', fa_asset_name = ''Truck'',
            fa_category = ''Vehicle'', fa_location = ''HQ'',
            fa_acquisition_date = \<lparr>year = 2025, month = 1, day = 15\<rparr>,
            fa_cost = 1200, fa_salvage_value = 200, fa_useful_life = 5,
            fa_accumulated_depreciation = 0\<rparr>"

definition truck_session :: session where
  "truck_session =
     run_ops [Acquire ''Truck'' ''Vehicle'' ''HQ'' \<lparr>year = 2025, month = 1, day = 15\<rparr>
                1200 200 5] empty_session"

definition year_end :: date where
  "year_end = \<lparr>year = 2025, month = 12, day = 31\<rparr>"

definition depreciated_session :: session where
  "depreciated_session = snd (snd (calculate_and_post_depreciation year_end truck_session))"

definition press_session :: session where
  "press_session =
     run_ops [Acquire ''Press'' ''Equipment'' ''Plant'' \<lparr>year = 2025, month = 3, day = 1\<rparr>
                100 200 5] empty_session"

definition widget_sale_session :: session where
  "widget_sale_session =
     run_ops [InventoryUpsert ''2025-01-15 09:00:00'' ''Widget'' 10 5 8,
              Sale ''2025-01-15 10:00:00'' \<lparr>year = 2025, month = 1, day = 15\<rparr>
                ''Widget'' 3 ''Bob'' ''Cash''] empty_session"

definition scenario5_is :: snapshot where
  "scenario5_is = [(''Sales Revenue'', 1000), (''Cost of Goods Sold'', 400)]"

definition scenario5_bs :: snapshot where
  "scenario5_bs =
     [(''Cash'', 200), (''Accounts Receivable'', 100), (''Inventory'', 50),
      (''Fixed Assets (Net)'', 650), (''Accounts Payable'', 0),
      (''Owner'' @ [CHR 0x27] @ ''s Equity (Simplified)'', 1000)]"

definition idle_is :: snapshot where
  "idle_is = [(''Sales Revenue'', 0), (''Operating Expenses'', 50)]"

definition idle_bs :: snapshot where
  "idle_bs = [(''Cash'', 10), (''Accounts Receivable'', 0), (''Accounts Payable'', 0)]"

definition rounding_session :: session where
  "rounding_session =
     run_ops [Receivable \<lparr>year = 2025, month = 1, day = 15\<rparr> ''Acme'' ''Credit'' 12345.75
                ''Consulting'',
              Receivable \<lparr>year = 2025, month = 1, day = 16\<rparr> ''Bulk Buyer'' ''Cash''
                10000000000000000 ''Wholesale order'',
              Payable \<lparr>year = 2025, month = 1, day = 17\<rparr> ''Supplier'' 10000000000000000
                ''Stock purchase''] empty_session"

section \<open>The ledger stays balanced\<close>


lemma gl_post [simp]:
  "general_ledger (post_to_gl d a db cr desc s) = general_ledger s @
     [\<lparr>gl_date = d, gl_account = a, gl_debit = db, gl_credit = cr, gl_description = desc\<rparr>]"
  by (simp add: post_to_gl_def)

lemma post_to_gl_others [simp]:
  "fixed_assets (post_to_gl d a db cr desc s) = fixed_assets s"
  "inventory (post_to_gl d a db cr desc s) = inventory s"
  "receivables (post_to_gl d a db cr desc s) = receivables s"
  "payables (post_to_gl d a db cr desc s) = payables s"
  by (simp_all add: post_to_gl_def)

lemma total_debit_append: "total_debit (xs @ ys) = total_debit xs + total_debit ys"
  by (simp add: total_debit_def)

lemma total_credit_append: "total_credit (xs @ ys) = total_credit xs + total_credit ys"
  by (simp add: total_credit_def)

lemma balanced_Nil: "balanced []"
  by (simp add: balanced_def total_debit_def total_credit_def)

lemma balanced_append: "balanced xs \<Longrightarrow> balanced ys \<Longrightarrow> balanced (xs @ ys)"
  by (simp add: balanced_def total_debit_append total_credit_append)

lemma balanced_pair:
  "balanced [\<lparr>gl_date = d1, gl_account = a1, gl_debit = x, gl_credit = 0, gl_description = m1\<rparr>,
             \<lparr>gl_date = d2, gl_account = a2, gl_debit = 0, gl_credit = x, gl_description = m2\<rparr>]"
  by (simp add: balanced_def total_debit_def total_credit_def)

lemma balanced_two_pairs:
  "balanced [\<lparr>gl_date = d1, gl_account = a1, gl_debit = x, gl_credit = 0, gl_description = m1\<rparr>,
             \<lparr>gl_date = d2, gl_account = a2, gl_debit = 0, gl_credit = x, gl_description = m2\<rparr>,
             \<lparr>gl_date = d3, gl_account = a3, gl_debit = y, gl_credit = 0, gl_description = m3\<rparr>,
             \<lparr>gl_date = d4, gl_account = a4, gl_debit = 0, gl_credit = y, gl_description = m4\<rparr>]"
  by (simp add: balanced_def total_debit_def total_credit_def)

lemma receivable_balanced:
  "\<exists>b. general_ledger (add_receivable_record d c t a m s) = general_ledger s @ b \<and> balanced b"
  by (simp add: add_receivable_record_def Let_def balanced_pair)

lemma payable_balanced:
  "\<exists>b. general_ledger (add_payable_record d v a m s) = general_ledger s @ b \<and> balanced b"
  by (simp add: add_payable_record_def Let_def balanced_pair)

lemma sale_balanced:
  "\<exists>b. general_ledger (snd (snd (add_sale_record now d i q c t s))) = general_ledger s @ b
       \<and> balanced b"
proof (cases "find_index_of i (inventory s)")
  case None
  then show ?thesis by (simp add: add_sale_record_def balanced_Nil)
next
  case (Some idx)
  show ?thesis
  proof (cases "q > inv_quantity (inventory s ! idx)")
    case True
    then show ?thesis using Some by (simp add: add_sale_record_def balanced_Nil)
  next
    case False
    then show ?thesis using Some
      by (simp add: add_sale_record_def Let_def balanced_two_pairs)
  qed
qed

lemma asset_balanced:
  "\<exists>b. general_ledger (snd (snd (submit_asset n c l d k sv ul s))) = general_ledger s @ b
       \<and> balanced b"
  by (simp add: submit_asset_def Let_def balanced_pair balanced_Nil)

lemma depreciation_loop_balanced:
  "\<exists>b. general_ledger (depreciation_loop d i rows s) = general_ledger s @ b \<and> balanced b"
proof (induction rows arbitrary: i s)
  case Nil
  show ?case by (simp add: balanced_Nil)
next
  case (Cons row rows)
  show ?case
  proof (cases "fa_useful_life row > 0")
    case False
    then show ?thesis using Cons.IH [of "Suc i" s] by simp
  next
    case True
    define a where "a = (fa_cost row - fa_salvage_value row) / of_int (fa_useful_life row)"
    define s2 where "s2 = post_to_gl d ''Accumulated Depreciation'' 0 a
                      (''Annual depreciation for '' @ fa_asset_name row)
                      (post_to_gl d ''Depreciation Expense'' a 0
                      (''Annual depreciation for '' @ fa_asset_name row) s)"
    define s3 where "s3 = s2\<lparr>fixed_assets := (fixed_assets s2)
                  [i := (fixed_assets s2 ! i)\<lparr>fa_accumulated_depreciation :=
                                   fa_accumulated_depreciation (fixed_assets s2 ! i) + a\<rparr>]\<rparr>"
    have step: "depreciation_loop d i (row # rows) s = depreciation_loop d (Suc i) rows s3"
      using True by (simp add: Let_def s3_def s2_def a_def)
    obtain b where b: "general_ledger (depreciation_loop d (Suc i) rows s3) = general_ledger s3 @ b"
       "balanced b"
      using Cons.IH [of "Suc i" s3] by blast
    have gl3: "general_ledger s3 = general_ledger s @
        [\<lparr>gl_date = d, gl_account = ''Depreciation Expense'', gl_debit = a, gl_credit = 0,
          gl_description = ''Annual depreciation for '' @ fa_asset_name row\<rparr>,
         \<lparr>gl_date = d, gl_account = ''Accumulated Depreciation'', gl_debit = 0, gl_credit = a,
          gl_description = ''Annual depreciation for '' @ fa_asset_name row\<rparr>]"
      by (simp add: s3_def s2_def)
    have "balanced ([\<lparr>gl_date = d, gl_account = ''Depreciation Expense'', gl_debit = a, gl_credit = 0,
          gl_description = ''Annual depreciation for '' @ fa_asset_name row\<rparr>,
         \<lparr>gl_date = d, gl_account = ''Accumulated Depreciation'', gl_debit = 0, gl_credit = a,
          gl_description = ''Annual depreciation for '' @ fa_asset_name row\<rparr>] @ b)"
      by (intro balanced_append balanced_pair b(2))
    then show ?thesis
      unfolding step b(1) gl3 by auto
  qed
qed

lemma depreciation_balanced:
  "\<exists>b. general_ledger (snd (snd (calculate_and_post_depreciation d s))) = general_ledger s @ b
       \<and> balanced b"
  using depreciation_loop_balanced [of d 0 "fixed_assets s" s]
  by (auto simp: calculate_and_post_depreciation_def Let_def balanced_Nil)

lemma inventory_balanced:
  "\<exists>b. general_ledger (snd (snd (submit_inventory now n q uc sp s))) = general_ledger s @ b
       \<and> balanced b"
  by (auto simp: submit_inventory_def balanced_Nil split: option.splits)

lemma apply_op_balanced:
  "\<exists>b. general_ledger (apply_op op s) = general_ledger s @ b \<and> balanced b"
proof (cases op)
  case (Receivable d c t a m)
  then show ?thesis using receivable_balanced by simp
next
  case (Payable d v a m)
  then show ?thesis using payable_balanced by simp
next
  case (Sale now d i q c t)
  then show ?thesis using sale_balanced by simp
next
  case (Acquire n c l d k sv ul)
  then show ?thesis using asset_balanced by simp
next
  case (Depreciate d)
  then show ?thesis using depreciation_balanced by simp
next
  case (InventoryUpsert now n q uc sp)
  then show ?thesis using inventory_balanced by simp
qed

lemma run_ops_balanced:
  "balanced (general_ledger s) \<Longrightarrow> balanced (general_ledger (run_ops ops s))"
proof (induction ops arbitrary: s)
  case Nil
  then show ?case by simp
next
  case (Cons op ops)
  obtain b where "general_ledger (apply_op op s) = general_ledger s @ b" "balanced b"
    using apply_op_balanced by blast
  with Cons.prems have "balanced (general_ledger (apply_op op s))"
    by (simp add: balanced_append)
  then show ?case using Cons.IH by simp
qed

text \<open>
  Claim C1. Starting from the empty session, after every operation of any sequence of
  operations (so at every point in time, \<open>take n ops\<close> being the operations done so
  far) the sum of the Debit column of the general ledger equals the sum of its Credit
  column, hence they differ by at most 0.01; and every operation appends to the ledger a
  batch of entries whose debits and credits have the same sum.
\<close>

theorem ledger_balance_invariant:
  "total_debit (general_ledger (run_ops (take n ops) empty_session))
     = total_credit (general_ledger (run_ops (take n ops) empty_session))
   \<and> \<bar>total_debit (general_ledger (run_ops (take n ops) empty_session))
        - total_credit (general_ledger (run_ops (take n ops) empty_session))\<bar> \<le> 0.01
   \<and> (\<exists>batch. general_ledger (apply_op op s) = general_ledger s @ batch
         \<and> total_debit batch = total_credit batch)"
proof -
  have "balanced (general_ledger empty_session)"
    by (simp add: empty_session_def balanced_Nil)
  then have "balanced (general_ledger (run_ops (take n ops) empty_session))"
    by (rule run_ops_balanced)
  then show ?thesis
    using apply_op_balanced [of op s] by (simp add: balanced_def)
qed

section \<open>The balance sheet totals\<close>

lemma account_debit_append: "account_debit a (xs @ ys) = account_debit a xs + account_debit a ys"
  by (simp add: account_debit_def)

lemma account_credit_append: "account_credit a (xs @ ys) = account_credit a xs + account_credit a ys"
  by (simp add: account_credit_def)

lemma gap_append: "assets_minus_claims (xs @ ys) = assets_minus_claims xs + assets_minus_claims ys"
  by (simp add: assets_minus_claims_def account_debit_append account_credit_append)

lemma gap_Nil: "assets_minus_claims [] = 0"
  by (simp add: assets_minus_claims_def account_debit_def account_credit_def)

lemma balance_sheet_gap:
  "category_amount ''Total Assets'' (generate_balance_sheet gl)
     - category_amount ''Total Liabilities & Equity'' (generate_balance_sheet gl)
   = assets_minus_claims gl"
proof (cases "gl = []")
  case True
  then show ?thesis
    by (simp add: generate_balance_sheet_def category_amount_def gap_Nil)
next
  case False
  then show ?thesis
    by (simp add: generate_balance_sheet_def generate_income_statement_def category_amount_def
        Let_def assets_minus_claims_def)
qed

lemma gap_cash_sale:
  "assets_minus_claims
     [\<lparr>gl_date = d1, gl_account = ''Cash'', gl_debit = x, gl_credit = 0,
       gl_description = m1\<rparr>,
      \<lparr>gl_date = d2, gl_account = ''Sales Revenue'', gl_debit = 0, gl_credit = x,
       gl_description = m2\<rparr>] = 0"
  by (simp add: assets_minus_claims_def account_debit_def account_credit_def)

lemma gap_credit_sale:
  "assets_minus_claims
     [\<lparr>gl_date = d1, gl_account = ''Accounts Receivable'', gl_debit = x, gl_credit = 0,
       gl_description = m1\<rparr>,
      \<lparr>gl_date = d2, gl_account = ''Sales Revenue'', gl_debit = 0, gl_credit = x,
       gl_description = m2\<rparr>] = 0"
  by (simp add: assets_minus_claims_def account_debit_def account_credit_def)

lemma gap_expense:
  "assets_minus_claims
     [\<lparr>gl_date = d1, gl_account = ''Expenses'', gl_debit = x, gl_credit = 0,
       gl_description = m1\<rparr>,
      \<lparr>gl_date = d2, gl_account = ''Cash'', gl_debit = 0, gl_credit = x,
       gl_description = m2\<rparr>] = 0"
  by (simp add: assets_minus_claims_def account_debit_def account_credit_def)

lemma gap_cogs:
  "assets_minus_claims
     [\<lparr>gl_date = d1, gl_account = ''Cost of Goods Sold'', gl_debit = x, gl_credit = 0,
       gl_description = m1\<rparr>,
      \<lparr>gl_date = d2, gl_account = ''Inventory'', gl_debit = 0, gl_credit = x,
       gl_description = m2\<rparr>] = 0"
  by (simp add: assets_minus_claims_def account_debit_def account_credit_def)

lemma gap_acquisition:
  "assets_minus_claims
     [\<lparr>gl_date = d1, gl_account = ''Fixed Assets'', gl_debit = x, gl_credit = 0,
       gl_description = m1\<rparr>,
      \<lparr>gl_date = d2, gl_account = ''Cash'', gl_debit = 0, gl_credit = x,
       gl_description = m2\<rparr>] = 0"
  by (simp add: assets_minus_claims_def account_debit_def account_credit_def)

lemma gap_depreciation:
  "assets_minus_claims
     [\<lparr>gl_date = d1, gl_account = ''Depreciation Expense'', gl_debit = x, gl_credit = 0,
       gl_description = m1\<rparr>,
      \<lparr>gl_date = d2, gl_account = ''Accumulated Depreciation'', gl_debit = 0, gl_credit = x,
       gl_description = m2\<rparr>] = 0"
  by (simp add: assets_minus_claims_def account_debit_def account_credit_def)

lemma gap_first_pair:
  "assets_minus_claims (e1 # e2 # e3 # rest)
     = assets_minus_claims [e1, e2] + assets_minus_claims (e3 # rest)"
  using gap_append [of "[e1, e2]" "e3 # rest"] by simp

lemmas gap_pairs =
  gap_cash_sale gap_credit_sale gap_expense gap_cogs gap_acquisition gap_depreciation

lemma gap_two_pairs:
  "assets_minus_claims (gl @ [e1, e2, e3, e4])
     = assets_minus_claims gl + assets_minus_claims [e1, e2] + assets_minus_claims [e3, e4]"
  using gap_append [of gl "[e1, e2, e3, e4]"] gap_append [of "[e1, e2]" "[e3, e4]"] by simp

lemma receivable_gap:
  "assets_minus_claims (general_ledger (add_receivable_record d c t a m s))
     = assets_minus_claims (general_ledger s)"
  by (simp add: add_receivable_record_def Let_def gap_append gap_pairs)

lemma payable_gap:
  "assets_minus_claims (general_ledger (add_payable_record d v a m s))
     = assets_minus_claims (general_ledger s)"
  by (simp add: add_payable_record_def Let_def gap_append gap_pairs)

lemma sale_gap:
  "assets_minus_claims (general_ledger (snd (snd (add_sale_record now d i q c t s))))
     = assets_minus_claims (general_ledger s)"
proof (cases "find_index_of i (inventory s)")
  case None
  then show ?thesis by (simp add: add_sale_record_def)
next
  case (Some idx)
  show ?thesis
  proof (cases "q > inv_quantity (inventory s ! idx)")
    case True
    then show ?thesis using Some by (simp add: add_sale_record_def)
  next
    case False
    have "\<exists>a m1 m2 m3 m4 x y.
            general_ledger (snd (snd (add_sale_record now d i q c t s))) = general_ledger s @
              [\<lparr>gl_date = d, gl_account = a, gl_debit = x, gl_credit = 0, gl_description = m1\<rparr>,
                \<lparr>gl_date = d, gl_account = ''Sales Revenue'', gl_debit = 0, gl_credit = x,
                 gl_description = m2\<rparr>,
               \<lparr>gl_date = d, gl_account = ''Cost of Goods Sold'', gl_debit = y, gl_credit = 0,
                 gl_description = m3\<rparr>,
                \<lparr>gl_date = d, gl_account = ''Inventory'', gl_debit = 0, gl_credit = y,
                 gl_description = m4\<rparr>]
            \<and> (a = ''Cash'' \<or> a = ''Accounts Receivable'')"
      using False Some by (simp add: add_sale_record_def Let_def)
    then show ?thesis
      by (auto simp: gap_two_pairs gap_pairs)
  qed
qed

lemma asset_gap:
  "assets_minus_claims (general_ledger (snd (snd (submit_asset n c l d k sv ul s))))
     = assets_minus_claims (general_ledger s)"
  by (simp add: submit_asset_def Let_def gap_append gap_pairs)

lemma depreciation_loop_gap:
  "assets_minus_claims (general_ledger (depreciation_loop d i rows s))
     = assets_minus_claims (general_ledger s)"
proof (induction rows arbitrary: i s)
  case Nil
  show ?case by simp
next
  case (Cons row rows)
  show ?case
    by (simp add: Cons.IH Let_def gap_append gap_pairs)
qed

lemma depreciation_gap:
  "assets_minus_claims (general_ledger (snd (snd (calculate_and_post_depreciation d s))))
     = assets_minus_claims (general_ledger s)"
  by (simp add: calculate_and_post_depreciation_def Let_def depreciation_loop_gap)

lemma inventory_gap:
  "assets_minus_claims (general_ledger (snd (snd (submit_inventory now n q uc sp s))))
     = assets_minus_claims (general_ledger s)"
  by (simp add: submit_inventory_def split: option.splits)

lemma apply_op_gap:
  "assets_minus_claims (general_ledger (apply_op op s)) = assets_minus_claims (general_ledger s)"
  by (cases op)
    (simp_all add: receivable_gap payable_gap sale_gap asset_gap depreciation_gap inventory_gap)

lemma run_ops_gap:
  "assets_minus_claims (general_ledger (run_ops ops s)) = assets_minus_claims (general_ledger s)"
  by (induction ops arbitrary: s) (simp_all add: apply_op_gap)

text \<open>
  Over exact amounts every posting moves total assets and total liabilities & equity by
  the same amount, so the two totals of \<open>generate_balance_sheet\<close> agree after any
  sequence of operations from the empty session.
\<close>

lemma exact_balance_sheet_totals:
  "category_amount ''Total Assets''
       (generate_balance_sheet (general_ledger (run_ops ops empty_session)))
     = category_amount ''Total Liabilities & Equity''
         (generate_balance_sheet (general_ledger (run_ops ops empty_session)))"
proof -
  have "assets_minus_claims (general_ledger (run_ops ops empty_session)) = 0"
    by (simp add: run_ops_gap empty_session_def gap_Nil)
  then show ?thesis
    using balance_sheet_gap [of "general_ledger (run_ops ops empty_session)"] by simp
qed

text \<open>
  Claim C2, evaluated on the code. Three operations from the empty session: a credit sale
  of 12345.75, a cash sale of 10000000000000000 and an expense of 10000000000000000, all
  three amounts being doubles. In float64 the revenue 12345.75 + 10000000000000000 rounds
  to 10000000000012346, so the net income, and with it Total Liabilities & Equity, is
  12346, while Total Assets is 12345.75: the two totals differ by 0.25, more than 0.01,
  and the check of the ``Generate Balance Sheet'' button reports its error.
\<close>

theorem accounting_identity_broken_by_rounding:
  "map round_f64 [12345.75, 10000000000000000] = [12345.75, 10000000000000000]
   \<and> category_amount ''Total Assets''
         (generate_balance_sheet_f64 (general_ledger rounding_session)) = 12345.75
   \<and> category_amount ''Total Liabilities & Equity''
         (generate_balance_sheet_f64 (general_ledger rounding_session)) = 12346
   \<and> balance_sheet_check_f64 (generate_balance_sheet_f64 (general_ledger rounding_session))
       = ''error''"
  by code_simp

section \<open>Looking an item up\<close>

lemma find_index_of_None:
  "(find_index_of name rows = None) = (name \<notin> inv_item ` set rows)"
  by (induction rows) (auto split: option.splits)

lemma find_index_of_Some:
  "find_index_of name rows = Some i \<Longrightarrow> i < length rows \<and> inv_item (rows ! i) = name"
proof (induction rows arbitrary: i)
  case Nil
  then show ?case by simp
next
  case (Cons r rows)
  then show ?case
    by (cases "inv_item r = name") (auto split: option.splits)
qed

lemma find_index_of_find:
  "find (\<lambda>r. inv_item r = name) rows = Some row
     \<Longrightarrow> \<exists>i. find_index_of name rows = Some i \<and> rows ! i = row"
  by (induction rows) (auto split: if_splits)

section \<open>Rejected sales\<close>

text \<open>
  Claim C3. A sale of an item that is not in the inventory returns the error
  ``Item not found in inventory.'', and a sale of more units than the stock of the item
  (the quantity of the first row of that name) returns an error whose message reports that
  stock; in both cases the session is returned as it was, so neither the inventory nor the
  general ledger changes.
\<close>

theorem sale_rejected_without_mutation:
  "(item \<notin> inv_item ` set (inventory s) \<longrightarrow>
      add_sale_record now d item quantity customer sale_type s
        = (''error'', ''Item not found in inventory.'', s))
   \<and> (\<forall>row. find (\<lambda>r. inv_item r = item) (inventory s) = Some row
              \<and> quantity > inv_quantity row \<longrightarrow>
          add_sale_record now d item quantity customer sale_type s
            = (''error'',
               ''Not enough stock. Only '' @ str_int (inv_quantity row) @ '' units available.'',
               s))"
proof (intro conjI impI allI)
  assume "item \<notin> inv_item ` set (inventory s)"
  then have "find_index_of item (inventory s) = None"
    by (simp add: find_index_of_None)
  then show "add_sale_record now d item quantity customer sale_type s
               = (''error'', ''Item not found in inventory.'', s)"
    by (simp add: add_sale_record_def)
next
  fix row
  assume a: "find (\<lambda>r. inv_item r = item) (inventory s) = Some row \<and> quantity > inv_quantity row"
  then obtain i where i: "find_index_of item (inventory s) = Some i" "inventory s ! i = row"
    using find_index_of_find by blast
  show "add_sale_record now d item quantity customer sale_type s
          = (''error'',
             ''Not enough stock. Only '' @ str_int (inv_quantity row) @ '' units available.'', s)"
    using a i by (simp add: add_sale_record_def)
qed

theorem sale_rejected_without_mutation_witness:
  "''Bolt'' \<notin> inv_item ` set (inventory stocked_session)
   \<and> add_sale_record ''2025-01-15 10:00:00'' \<lparr>year = 2025, month = 1, day = 15\<rparr>
         ''Bolt'' 1 ''Bob'' ''Cash'' stocked_session
       = (''error'', ''Item not found in inventory.'', stocked_session)
   \<and> find (\<lambda>r. inv_item r = ''Widget'') (inventory stocked_session) = Some widget_row
   \<and> 20 > inv_quantity widget_row
   \<and> add_sale_record ''2025-01-15 10:00:00'' \<lparr>year = 2025, month = 1, day = 15\<rparr>
         ''Widget'' 20 ''Bob'' ''Cash'' stocked_session
       = (''error'', ''Not enough stock. Only 7 units available.'', stocked_session)"
proof -
  let ?d = "\<lparr>year = 2025, month = 1, day = 15\<rparr>"
  have inv: "inventory stocked_session = [widget_row, gadget_row]"
    by (simp add: stocked_session_def empty_session_def)
  have h1: "''Bolt'' \<notin> inv_item ` set (inventory stocked_session)"
    by (simp add: inv widget_row_def gadget_row_def)
  have h2: "find (\<lambda>r. inv_item r = ''Widget'') (inventory stocked_session) = Some widget_row
      \<and> 20 > inv_quantity widget_row"
    by (simp add: inv widget_row_def)
  have seven: "str_int (inv_quantity widget_row) = ''7''"
    by (simp add: widget_row_def str_int_def str_nat.simps)
  from sale_rejected_without_mutation
         [of "''Bolt''" stocked_session "''2025-01-15 10:00:00''" ?d 1 "''Bob''" "''Cash''"] h1
  have c1: "add_sale_record ''2025-01-15 10:00:00'' ?d ''Bolt'' 1 ''Bob'' ''Cash'' stocked_session
              = (''error'', ''Item not found in inventory.'', stocked_session)"
    by blast
  from sale_rejected_without_mutation
         [of "''Widget''" stocked_session "''2025-01-15 10:00:00''" ?d 20 "''Bob''" "''Cash''"] h2
  have "add_sale_record ''2025-01-15 10:00:00'' ?d ''Widget'' 20 ''Bob'' ''Cash'' stocked_session
          = (''error'', ''Not enough stock. Only '' @ str_int (inv_quantity widget_row)
               @ '' units available.'', stocked_session)"
    by blast
  then have c2: "add_sale_record ''2025-01-15 10:00:00'' ?d ''Widget'' 20 ''Bob'' ''Cash''
                   stocked_session
              = (''error'', ''Not enough stock. Only 7 units available.'', stocked_session)"
    by (simp add: seven)
  show ?thesis using h1 c1 h2 c2 by blast
qed

section \<open>Inventory names stay unique\<close>

lemma names_update_same:
  "i < length rows \<Longrightarrow> inv_item r = inv_item (rows ! i)
     \<Longrightarrow> map inv_item (rows[i := r]) = map inv_item rows"
  by (simp add: map_update list_update_same_conv)

lemma depreciation_loop_inventory [simp]:
  "inventory (depreciation_loop d i rows s) = inventory s"
  by (induction rows arbitrary: i s) (simp_all add: Let_def)

lemma sale_names:
  "map inv_item (inventory (snd (snd (add_sale_record now d i q c t s))))
     = map inv_item (inventory s)"
proof (cases "find_index_of i (inventory s)")
  case None
  then show ?thesis by (simp add: add_sale_record_def)
next
  case (Some idx)
  then have "idx < length (inventory s)"
    using find_index_of_Some by blast
  then show ?thesis using Some
    by (simp add: add_sale_record_def Let_def names_update_same)
qed

lemma upsert_existing:
  assumes "find_index_of n (inventory s) = Some idx"
    and "n \<noteq> [] \<and> 0 \<le> q \<and> 0 \<le> uc \<and> 0 \<le> sp"
  shows "inventory (snd (snd (submit_inventory now n q uc sp s)))
           = (inventory s)[idx := \<lparr>inv_item = n, inv_quantity = q, inv_unit_cost = uc,
                                   inv_selling_price = sp, inv_last_updated = now\<rparr>]"
proof -
  have "inv_item (inventory s ! idx) = n"
    using assms(1) find_index_of_Some by blast
  then have "(inventory s ! idx)\<lparr>inv_quantity := q, inv_unit_cost := uc,
                 inv_selling_price := sp, inv_last_updated := now\<rparr>
             = \<lparr>inv_item = n, inv_quantity = q, inv_unit_cost = uc,
                 inv_selling_price = sp, inv_last_updated = now\<rparr>"
    by (cases "inventory s ! idx") simp
  then show ?thesis using assms
    by (simp add: submit_inventory_def)
qed

lemma upsert_new:
  assumes "find_index_of n (inventory s) = None"
    and "n \<noteq> [] \<and> 0 \<le> q \<and> 0 \<le> uc \<and> 0 \<le> sp"
  shows "inventory (snd (snd (submit_inventory now n q uc sp s)))
           = inventory s @ [\<lparr>inv_item = n, inv_quantity = q, inv_unit_cost = uc,
                               inv_selling_price = sp, inv_last_updated = now\<rparr>]"
  using assms by (simp add: submit_inventory_def)

lemma upsert_rejected:
  "\<not> (n \<noteq> [] \<and> 0 \<le> q \<and> 0 \<le> uc \<and> 0 \<le> sp)
     \<Longrightarrow> snd (snd (submit_inventory now n q uc sp s)) = s"
  by (auto simp: submit_inventory_def)

lemma upsert_distinct:
  assumes "distinct (map inv_item (inventory s))"
  shows "distinct (map inv_item (inventory (snd (snd (submit_inventory now n q uc sp s)))))"
proof (cases "n \<noteq> [] \<and> 0 \<le> q \<and> 0 \<le> uc \<and> 0 \<le> sp")
  case False
  then show ?thesis using assms upsert_rejected by simp
next
  case True
  show ?thesis
  proof (cases "find_index_of n (inventory s)")
    case None
    then have "n \<notin> inv_item ` set (inventory s)"
      by (simp add: find_index_of_None)
    then show ?thesis using assms upsert_new [OF None True] by simp
  next
    case (Some idx)
    then have "idx < length (inventory s)" "inv_item (inventory s ! idx) = n"
      using find_index_of_Some by blast+
    then show ?thesis using assms upsert_existing [OF Some True]
      by (simp add: names_update_same)
  qed
qed

lemma apply_op_distinct:
  "distinct (map inv_item (inventory s))
     \<Longrightarrow> distinct (map inv_item (inventory (apply_op op s)))"
proof (cases op)
  case (Receivable d c t a m)
  then show ?thesis if "distinct (map inv_item (inventory s))"
    using that by (simp add: add_receivable_record_def Let_def)
next
  case (Payable d v a m)
  then show ?thesis if "distinct (map inv_item (inventory s))"
    using that by (simp add: add_payable_record_def Let_def)
next
  case (Sale now d i q c t)
  then show ?thesis if "distinct (map inv_item (inventory s))"
    using that by (simp add: sale_names)
next
  case (Acquire n c l d k sv ul)
  then show ?thesis if "distinct (map inv_item (inventory s))"
    using that by (simp add: submit_asset_def Let_def)
next
  case (Depreciate d)
  then show ?thesis if "distinct (map inv_item (inventory s))"
    using that by (simp add: calculate_and_post_depreciation_def Let_def)
next
  case (InventoryUpsert now n q uc sp)
  then show ?thesis if "distinct (map inv_item (inventory s))"
    using that by (simp add: upsert_distinct)
qed

lemma run_ops_distinct:
  "distinct (map inv_item (inventory s))
     \<Longrightarrow> distinct (map inv_item (inventory (run_ops ops s)))"
  by (induction ops arbitrary: s) (simp_all add: apply_op_distinct)

lemma distinct_at_most_one:
  "distinct (map f xs) \<Longrightarrow> length (filter (\<lambda>r. f r = k) xs) \<le> 1"
proof (induction xs)
  case Nil
  then show ?case by simp
next
  case (Cons x xs)
  show ?case
  proof (cases "f x = k")
    case True
    have "\<forall>r\<in>set xs. f r \<noteq> f x"
      using Cons.prems by (simp add: image_iff) metis
    with True have "filter (\<lambda>r. f r = k) xs = []"
      by (simp add: filter_empty_conv)
    with True show ?thesis by simp
  next
    case False
    with Cons show ?thesis by simp
  qed
qed

text \<open>
  Claim C7. After any sequence of operations from the empty session, the inventory holds
  at most one row of any item name. An accepted entry for a name that is already present
  replaces the quantity, unit cost and selling price of the row of that name by the
  entered values and sets its timestamp to the current time, in place: every other row and
  the number of rows stay as they were. An accepted entry for a new name appends one row.
\<close>

theorem inventory_upsert:
  "length (filter (\<lambda>r. inv_item r = name) (inventory (run_ops ops empty_session))) \<le> 1
   \<and> (name \<in> inv_item ` set (inventory s) \<and> name \<noteq> [] \<and> 0 \<le> q \<and> 0 \<le> uc \<and> 0 \<le> sp \<longrightarrow>
        (\<exists>idx. idx < length (inventory s) \<and> inv_item (inventory s ! idx) = name
           \<and> inventory (snd (snd (submit_inventory now name q uc sp s)))
               = (inventory s)[idx := \<lparr>inv_item = name, inv_quantity = q, inv_unit_cost = uc,
                                       inv_selling_price = sp, inv_last_updated = now\<rparr>]))
   \<and> (name \<notin> inv_item ` set (inventory s) \<and> name \<noteq> [] \<and> 0 \<le> q \<and> 0 \<le> uc \<and> 0 \<le> sp \<longrightarrow>
        inventory (snd (snd (submit_inventory now name q uc sp s)))
          = inventory s @ [\<lparr>inv_item = name, inv_quantity = q, inv_unit_cost = uc,
                              inv_selling_price = sp, inv_last_updated = now\<rparr>])"
proof (intro conjI impI)
  have "distinct (map inv_item (inventory (run_ops ops empty_session)))"
    by (rule run_ops_distinct) (simp add: empty_session_def)
  then show "length (filter (\<lambda>r. inv_item r = name) (inventory (run_ops ops empty_session))) \<le> 1"
    by (rule distinct_at_most_one)
next
  assume a: "name \<in> inv_item ` set (inventory s) \<and> name \<noteq> [] \<and> 0 \<le> q \<and> 0 \<le> uc \<and> 0 \<le> sp"
  then obtain idx where idx: "find_index_of name (inventory s) = Some idx"
    using find_index_of_None [of name "inventory s"] by (cases "find_index_of name (inventory s)") auto
  have "idx < length (inventory s) \<and> inv_item (inventory s ! idx) = name"
    using idx find_index_of_Some by blast
  moreover have "inventory (snd (snd (submit_inventory now name q uc sp s)))
               = (inventory s)[idx := \<lparr>inv_item = name, inv_quantity = q, inv_unit_cost = uc,
                                       inv_selling_price = sp, inv_last_updated = now\<rparr>]"
    using upsert_existing [OF idx] a by simp
  ultimately show "\<exists>idx. idx < length (inventory s) \<and> inv_item (inventory s ! idx) = name
           \<and> inventory (snd (snd (submit_inventory now name q uc sp s)))
               = (inventory s)[idx := \<lparr>inv_item = name, inv_quantity = q, inv_unit_cost = uc,
                                       inv_selling_price = sp, inv_last_updated = now\<rparr>]"
    by blast
next
  assume a: "name \<notin> inv_item ` set (inventory s) \<and> name \<noteq> [] \<and> 0 \<le> q \<and> 0 \<le> uc \<and> 0 \<le> sp"
  then have "find_index_of name (inventory s) = None"
    by (simp add: find_index_of_None)
  then show "inventory (snd (snd (submit_inventory now name q uc sp s)))
          = inventory s @ [\<lparr>inv_item = name, inv_quantity = q, inv_unit_cost = uc,
                              inv_selling_price = sp, inv_last_updated = now\<rparr>]"
    using upsert_new a by simp
qed

theorem inventory_upsert_witness:
  "(''Widget'' \<in> inv_item ` set (inventory stocked_session) \<and> ''Widget'' \<noteq> []
      \<and> (0::int) \<le> 4 \<and> (0::real) \<le> 6 \<and> (0::real) \<le> 9)
   \<and> inventory (snd (snd (submit_inventory ''2025-01-15 10:00:00'' ''Widget'' 4 6 9
                              stocked_session)))
       = [\<lparr>inv_item = ''Widget'', inv_quantity = 4, inv_unit_cost = 6, inv_selling_price = 9,
           inv_last_updated = ''2025-01-15 10:00:00''\<rparr>, gadget_row]
   \<and> (''Bolt'' \<notin> inv_item ` set (inventory stocked_session) \<and> ''Bolt'' \<noteq> []
      \<and> (0::int) \<le> 100 \<and> (0::real) \<le> 1 \<and> (0::real) \<le> 2)
   \<and> inventory (snd (snd (submit_inventory ''2025-01-15 10:00:00'' ''Bolt'' 100 1 2
                              stocked_session)))
       = [widget_row, gadget_row,
          \<lparr>inv_item = ''Bolt'', inv_quantity = 100, inv_unit_cost = 1, inv_selling_price = 2,
           inv_last_updated = ''2025-01-15 10:00:00''\<rparr>]"
proof -
  have inv: "inventory stocked_session = [widget_row, gadget_row]"
    by (simp add: stocked_session_def empty_session_def)
  have h1: "''Widget'' \<in> inv_item ` set (inventory stocked_session) \<and> ''Widget'' \<noteq> []
      \<and> (0::int) \<le> 4 \<and> (0::real) \<le> 6 \<and> (0::real) \<le> 9"
    by (simp add: inv widget_row_def)
  have h2: "''Bolt'' \<notin> inv_item ` set (inventory stocked_session) \<and> ''Bolt'' \<noteq> []
      \<and> (0::int) \<le> 100 \<and> (0::real) \<le> 1 \<and> (0::real) \<le> 2"
    by (simp add: inv widget_row_def gadget_row_def)
  from inventory_upsert [of "''Widget''" "[]" stocked_session 4 6 9 "''2025-01-15 10:00:00''"] h1
  obtain idx where idx: "idx < length (inventory stocked_session)"
      "inv_item (inventory stocked_session ! idx) = ''Widget''"
      "inventory (snd (snd (submit_inventory ''2025-01-15 10:00:00'' ''Widget'' 4 6 9
                              stocked_session)))
         = (inventory stocked_session)[idx := \<lparr>inv_item = ''Widget'', inv_quantity = 4,
              inv_unit_cost = 6, inv_selling_price = 9,
              inv_last_updated = ''2025-01-15 10:00:00''\<rparr>]"
    by blast
  have "idx = 0"
    using idx(1,2) by (cases idx) (simp_all add: inv gadget_row_def)
  then have c1: "inventory (snd (snd (submit_inventory ''2025-01-15 10:00:00'' ''Widget'' 4 6 9
                              stocked_session)))
       = [\<lparr>inv_item = ''Widget'', inv_quantity = 4, inv_unit_cost = 6, inv_selling_price = 9,
           inv_last_updated = ''2025-01-15 10:00:00''\<rparr>, gadget_row]"
    using idx(3) by (simp add: inv)
  from inventory_upsert [of "''Bolt''" "[]" stocked_session 100 1 2 "''2025-01-15 10:00:00''"] h2
  have c2: "inventory (snd (snd (submit_inventory ''2025-01-15 10:00:00'' ''Bolt'' 100 1 2
                              stocked_session)))
       = [widget_row, gadget_row,
          \<lparr>inv_item = ''Bolt'', inv_quantity = 100, inv_unit_cost = 1, inv_selling_price = 2,
           inv_last_updated = ''2025-01-15 10:00:00''\<rparr>]"
    by (simp add: inv)
  show ?thesis using h1 h2 c1 c2 by blast
qed

section \<open>The annual depreciation run\<close>

lemma truck_session_value:
  "truck_session =
     \<lparr>receivables = [], payables = [], inventory = [], fixed_assets = [truck],
      general_ledger =
        [\<lparr>gl_date = \<lparr>year = 2025, month = 1, day = 15\<rparr>, gl_account = ''Fixed Assets'',
          gl_debit = 1200, gl_credit = 0,
          gl_description = ''Acquisition of Truck (YOUR_COMPANY-VEHICLE-2025-HQ)''\<rparr>,
         \<lparr>gl_date = \<lparr>year = 2025, month = 1, day = 15\<rparr>, gl_account = ''Cash'',
          gl_debit = 0, gl_credit = 1200,
          gl_description = ''Cash payment for Truck''\<rparr>]\<rparr>"
  by code_simp

lemma depreciation_loop_spec:
  "fixed_assets s = pre @ rows \<Longrightarrow> length pre = i \<Longrightarrow>
     depreciation_loop d i rows s =
       s\<lparr>general_ledger := general_ledger s @
            concat (map (spec_depreciation_entries d) (filter (\<lambda>a. fa_useful_life a > 0) rows)),
         fixed_assets := pre @ map spec_depreciated rows\<rparr>"
proof (induction rows arbitrary: i s pre)
  case Nil
  then show ?case by simp
next
  case (Cons row rows)
  show ?case
  proof (cases "fa_useful_life row > 0")
    case False
    have "fixed_assets s = (pre @ [row]) @ rows" "length (pre @ [row]) = Suc i"
      using Cons.prems by simp_all
    from Cons.IH [OF this] False show ?thesis
      by (simp add: spec_depreciated_def)
  next
    case True
    define a where "a = spec_annual_depreciation row"
    define s3 where "s3 = s\<lparr>general_ledger := general_ledger s @ spec_depreciation_entries d row,
                               fixed_assets := (pre @ [spec_depreciated row]) @ rows\<rparr>"
    have cur: "fixed_assets s ! i = row"
      using Cons.prems by (simp add: nth_append)
    have upd: "(fixed_assets s)[i := spec_depreciated row] = (pre @ [spec_depreciated row]) @ rows"
      using Cons.prems by (simp add: list_update_append)
    have step: "depreciation_loop d i (row # rows) s = depreciation_loop d (Suc i) rows s3"
      using True cur upd
      by (simp add: Let_def s3_def post_to_gl_def spec_depreciation_entries_def
          spec_depreciated_def spec_annual_depreciation_def)
    have "fixed_assets s3 = (pre @ [spec_depreciated row]) @ rows"
      "length (pre @ [spec_depreciated row]) = Suc i"
      using Cons.prems by (simp_all add: s3_def)
    from Cons.IH [OF this] show ?thesis
      unfolding step using True by (simp add: s3_def)
  qed
qed

lemma depreciation_posted_iff:
  "depreciation_posted y gl =
     (\<exists>e\<in>set gl. gl_account e = ''Depreciation Expense'' \<and> year (gl_date e) = y)"
  by (auto simp: depreciation_posted_def filter_empty_conv)

text \<open>
  Claim C4. If the ledger already holds a Depreciation Expense entry dated in the year of
  the as-of date, the depreciation routine returns a warning and the session it was given,
  so neither the ledger nor any accumulated depreciation changes. If there are no fixed
  assets it returns the warning ``No fixed assets to depreciate.'' and the session it was
  given. Otherwise (the first run of the year) it succeeds and appends, for every asset
  with a useful life above 0 and in the order of the register, one pair of a Depreciation
  Expense debit and an Accumulated Depreciation credit of (cost - salvage) / useful life,
  adds that amount to the accumulated depreciation of the asset, and leaves an asset whose
  useful life is 0 or less as it was, without entries.
\<close>

theorem depreciation_once_per_year:
  "((\<exists>e\<in>set (general_ledger s).
        gl_account e = ''Depreciation Expense'' \<and> year (gl_date e) = year d) \<longrightarrow>
      fst (calculate_and_post_depreciation d s) = ''warning''
      \<and> snd (snd (calculate_and_post_depreciation d s)) = s)
   \<and> (fixed_assets s = [] \<longrightarrow>
        calculate_and_post_depreciation d s
          = (''warning'', ''No fixed assets to depreciate.'', s))
   \<and> (fixed_assets s \<noteq> []
        \<and> \<not> (\<exists>e\<in>set (general_ledger s).
                gl_account e = ''Depreciation Expense'' \<and> year (gl_date e) = year d) \<longrightarrow>
        fst (calculate_and_post_depreciation d s) = ''success''
        \<and> snd (snd (calculate_and_post_depreciation d s))
            = s\<lparr>general_ledger := general_ledger s @
                   concat (map (spec_depreciation_entries d)
                     (filter (\<lambda>a. fa_useful_life a > 0) (fixed_assets s))),
                fixed_assets := map spec_depreciated (fixed_assets s)\<rparr>)"
proof (intro conjI impI)
  assume "\<exists>e\<in>set (general_ledger s).
            gl_account e = ''Depreciation Expense'' \<and> year (gl_date e) = year d"
  then have "depreciation_posted (year d) (general_ledger s)"
    by (simp add: depreciation_posted_iff)
  then show "fst (calculate_and_post_depreciation d s) = ''warning''"
    and "snd (snd (calculate_and_post_depreciation d s)) = s"
    by (simp_all add: calculate_and_post_depreciation_def Let_def)
next
  assume "fixed_assets s = []"
  then show "calculate_and_post_depreciation d s
               = (''warning'', ''No fixed assets to depreciate.'', s)"
    by (simp add: calculate_and_post_depreciation_def)
next
  assume a: "fixed_assets s \<noteq> []
        \<and> \<not> (\<exists>e\<in>set (general_ledger s).
                gl_account e = ''Depreciation Expense'' \<and> year (gl_date e) = year d)"
  then have np: "\<not> depreciation_posted (year d) (general_ledger s)"
    by (simp add: depreciation_posted_iff)
  show "fst (calculate_and_post_depreciation d s) = ''success''"
    using a np by (simp add: calculate_and_post_depreciation_def Let_def)
  have "depreciation_loop d 0 (fixed_assets s) s =
          s\<lparr>general_ledger := general_ledger s @
                   concat (map (spec_depreciation_entries d)
                     (filter (\<lambda>a. fa_useful_life a > 0) (fixed_assets s))),
            fixed_assets := [] @ map spec_depreciated (fixed_assets s)\<rparr>"
    by (rule depreciation_loop_spec) simp_all
  then show "snd (snd (calculate_and_post_depreciation d s))
            = s\<lparr>general_ledger := general_ledger s @
                   concat (map (spec_depreciation_entries d)
                     (filter (\<lambda>a. fa_useful_life a > 0) (fixed_assets s))),
                fixed_assets := map spec_depreciated (fixed_assets s)\<rparr>"
    using a np by (simp add: calculate_and_post_depreciation_def Let_def)
qed

theorem depreciation_once_per_year_witness:
  "fixed_assets empty_session = []
   \<and> calculate_and_post_depreciation year_end empty_session
       = (''warning'', ''No fixed assets to depreciate.'', empty_session)
   \<and> fixed_assets truck_session \<noteq> []
   \<and> \<not> (\<exists>e\<in>set (general_ledger truck_session).
           gl_account e = ''Depreciation Expense'' \<and> year (gl_date e) = year year_end)
   \<and> fst (calculate_and_post_depreciation year_end truck_session) = ''success''
   \<and> general_ledger depreciated_session = general_ledger truck_session @
        [\<lparr>gl_date = year_end, gl_account = ''Depreciation Expense'', gl_debit = 200,
          gl_credit = 0, gl_description = ''Annual depreciation for Truck''\<rparr>,
         \<lparr>gl_date = year_end, gl_account = ''Accumulated Depreciation'', gl_debit = 0,
          gl_credit = 200, gl_description = ''Annual depreciation for Truck''\<rparr>]
   \<and> fixed_assets depreciated_session = [truck\<lparr>fa_accumulated_depreciation := 200\<rparr>]
   \<and> (\<exists>e\<in>set (general_ledger depreciated_session).
         gl_account e = ''Depreciation Expense''
         \<and> year (gl_date e) = year \<lparr>year = 2025, month = 6, day = 30\<rparr>)
   \<and> fst (calculate_and_post_depreciation \<lparr>year = 2025, month = 6, day = 30\<rparr>
              depreciated_session) = ''warning''
   \<and> snd (snd (calculate_and_post_depreciation \<lparr>year = 2025, month = 6, day = 30\<rparr>
                   depreciated_session)) = depreciated_session"
proof -
  have h1: "fixed_assets empty_session = []"
    by (simp add: empty_session_def)
  have c1: "calculate_and_post_depreciation year_end empty_session
              = (''warning'', ''No fixed assets to depreciate.'', empty_session)"
    using depreciation_once_per_year [of empty_session year_end] h1 by blast
  have h2: "fixed_assets truck_session \<noteq> []
      \<and> \<not> (\<exists>e\<in>set (general_ledger truck_session).
              gl_account e = ''Depreciation Expense'' \<and> year (gl_date e) = year year_end)"
    by (simp add: truck_session_value)
  have c2: "fst (calculate_and_post_depreciation year_end truck_session) = ''success''
      \<and> depreciated_session
          = truck_session\<lparr>general_ledger := general_ledger truck_session @
                   concat (map (spec_depreciation_entries year_end)
                     (filter (\<lambda>a. fa_useful_life a > 0) (fixed_assets truck_session))),
                fixed_assets := map spec_depreciated (fixed_assets truck_session)\<rparr>"
    unfolding depreciated_session_def
    using depreciation_once_per_year [of truck_session year_end] h2 by blast
  note ds = conjunct2 [OF c2]
  have fa: "fixed_assets truck_session = [truck]"
    by (simp add: truck_session_value)
  have dep: "spec_annual_depreciation truck = 200" "fa_useful_life truck > 0"
    "fa_asset_name truck = ''Truck''" "fa_accumulated_depreciation truck = 0"
    by (simp_all add: spec_annual_depreciation_def truck_def)
  have gl2: "general_ledger depreciated_session = general_ledger truck_session @
        [\<lparr>gl_date = year_end, gl_account = ''Depreciation Expense'', gl_debit = 200,
          gl_credit = 0, gl_description = ''Annual depreciation for Truck''\<rparr>,
         \<lparr>gl_date = year_end, gl_account = ''Accumulated Depreciation'', gl_debit = 0,
          gl_credit = 200, gl_description = ''Annual depreciation for Truck''\<rparr>]"
    by (simp add: ds fa dep spec_depreciation_entries_def)
  have fa2: "fixed_assets depreciated_session = [truck\<lparr>fa_accumulated_depreciation := 200\<rparr>]"
    by (simp add: ds fa dep spec_depreciated_def)
  have h3: "\<exists>e\<in>set (general_ledger depreciated_session).
         gl_account e = ''Depreciation Expense''
         \<and> year (gl_date e) = year \<lparr>year = 2025, month = 6, day = 30\<rparr>"
    by (simp add: gl2 year_end_def)
  have c3: "fst (calculate_and_post_depreciation \<lparr>year = 2025, month = 6, day = 30\<rparr>
              depreciated_session) = ''warning''
      \<and> snd (snd (calculate_and_post_depreciation \<lparr>year = 2025, month = 6, day = 30\<rparr>
                   depreciated_session)) = depreciated_session"
    using depreciation_once_per_year
            [of depreciated_session "\<lparr>year = 2025, month = 6, day = 30\<rparr>"] h3
    by blast
  show ?thesis
    using h1 c1 h2 c2 gl2 fa2 h3 c3 by blast
qed

section \<open>The cash flow statement after an acquisition\<close>

text \<open>
  Claim C5, evaluated on the code. After the acquisition of a truck for 1200 and nothing
  else, the cash flow statement reports 0 as Net Cash from Investing Activities (and as
  every other line), not -1200, while the balance sheet shows Cash at -1200: the Cash
  credit of the acquisition carries the memo ``Cash payment for Truck'', which contains
  neither ``Acquisition'' nor ``Payment''.
\<close>

theorem acquisition_missing_from_cash_flow:
  "generate_cash_flow_statement (general_ledger truck_session)
     = [(''Net Cash from Operating Activities'', 0),
        (''Net Cash from Investing Activities'', 0),
        (''Net Cash from Financing Activities'', 0),
        (''Net Increase (Decrease) in Cash'', 0),
        (''Beginning Cash Balance'', 0),
        (''Ending Cash Balance'', 0)]
   \<and> map bs_amount (filter (\<lambda>r. bs_account r = ''Cash'')
         (generate_balance_sheet (general_ledger truck_session))) = [- 1200]"
  by (simp add: truck_session_value generate_cash_flow_statement_def
      generate_balance_sheet_def generate_income_statement_def Let_def
      account_debit_def account_credit_def)

section \<open>Accumulated depreciation over time\<close>

lemma press_session_value:
  "press_session =
     \<lparr>receivables = [], payables = [], inventory = [],
      fixed_assets =
        [\<lparr>fa_asset_tag = ''YOUR_COMPANY-EQUIPMENT-2025-PLANT'', fa_asset_name = ''Press'',
          fa_category = ''Equipment'', fa_location = ''Plant'',
          fa_acquisition_date = \<lparr>year = 2025, month = 3, day = 1\<rparr>,
          fa_cost = 100, fa_salvage_value = 200, fa_useful_life = 5,
          fa_accumulated_depreciation = 0\<rparr>],
      general_ledger =
        [\<lparr>gl_date = \<lparr>year = 2025, month = 3, day = 1\<rparr>, gl_account = ''Fixed Assets'',
          gl_debit = 100, gl_credit = 0,
          gl_description = ''Acquisition of Press (YOUR_COMPANY-EQUIPMENT-2025-PLANT)''\<rparr>,
         \<lparr>gl_date = \<lparr>year = 2025, month = 3, day = 1\<rparr>, gl_account = ''Cash'',
          gl_debit = 0, gl_credit = 100,
          gl_description = ''Cash payment for Press''\<rparr>]\<rparr>"
  by code_simp

text \<open>
  Claim C6 fails as stated: an asset of cost 100, salvage value 200 and useful life 5
  meets the preconditions of the data model and is accepted by the acquisition form; its
  accumulated depreciation starts at 0 and is -20 after one successful depreciation run.
\<close>

theorem negative_accumulated_depreciation:
  "list_all data_model_asset (fixed_assets press_session)
   \<and> map fa_accumulated_depreciation (fixed_assets press_session) = [0]
   \<and> fst (calculate_and_post_depreciation year_end press_session) = ''success''
   \<and> map fa_accumulated_depreciation
         (fixed_assets (snd (snd (calculate_and_post_depreciation year_end press_session))))
       = [- 20]"
  by (simp add: press_session_value data_model_asset_def calculate_and_post_depreciation_def
      depreciation_posted_def Let_def)

lemma asset_later_refl: "asset_later a a"
  by (simp add: asset_later_def)

lemma asset_later_trans: "asset_later a b \<Longrightarrow> asset_later b c \<Longrightarrow> asset_later a c"
proof -
  assume ab: "asset_later a b" and bc: "asset_later b c"
  have b: "b = a\<lparr>fa_accumulated_depreciation := fa_accumulated_depreciation b\<rparr>"
    using ab by (simp add: asset_later_def)
  have c: "c = b\<lparr>fa_accumulated_depreciation := fa_accumulated_depreciation c\<rparr>"
    using bc by (simp add: asset_later_def)
  have same: "fa_salvage_value b = fa_salvage_value a" "fa_cost b = fa_cost a"
    by (subst b, simp)+
  have "c = a\<lparr>fa_accumulated_depreciation := fa_accumulated_depreciation c\<rparr>"
    by (subst c, subst b) simp
  moreover have "fa_salvage_value a \<le> fa_cost a \<longrightarrow>
      fa_accumulated_depreciation a \<le> fa_accumulated_depreciation c"
    using ab bc same by (auto simp: asset_later_def)
  ultimately show ?thesis by (simp add: asset_later_def)
qed

lemma asset_later_depreciated: "asset_later a (spec_depreciated a)"
  by (simp add: asset_later_def spec_depreciated_def spec_annual_depreciation_def
      divide_nonneg_pos)

lemma register_later_refl: "register_later xs xs"
  by (simp add: register_later_def asset_later_refl)

lemma register_later_trans:
  "register_later xs ys \<Longrightarrow> register_later ys zs \<Longrightarrow> register_later xs zs"
  unfolding register_later_def
  by (metis asset_later_trans le_trans less_le_trans)

lemma register_later_append: "register_later xs (xs @ ys)"
  by (simp add: register_later_def nth_append asset_later_refl)

lemma register_later_depreciated: "register_later xs (map spec_depreciated xs)"
  by (simp add: register_later_def asset_later_depreciated)

lemma depreciation_register:
  "fixed_assets (snd (snd (calculate_and_post_depreciation d s))) =
     (if fst (calculate_and_post_depreciation d s) = ''success''
      then map spec_depreciated (fixed_assets s) else fixed_assets s)"
  using depreciation_loop_spec [of s "[]" "fixed_assets s" 0 d]
  by (simp add: calculate_and_post_depreciation_def Let_def)

lemma asset_register:
  "fixed_assets (snd (snd (submit_asset n c l d k sv ul s))) =
     (if n \<noteq> [] \<and> k > 0 \<and> ul > 0 \<and> c \<noteq> [] \<and> l \<noteq> []
      then fixed_assets s @
             [\<lparr>fa_asset_tag = generate_asset_tag ''YOUR_COMPANY'' c (year d) l,
               fa_asset_name = n, fa_category = c, fa_location = l,
               fa_acquisition_date = d, fa_cost = k, fa_salvage_value = sv,
               fa_useful_life = ul, fa_accumulated_depreciation = 0\<rparr>]
      else fixed_assets s)"
  by (simp add: submit_asset_def Let_def)

lemma sale_register:
  "fixed_assets (snd (snd (add_sale_record now d i q c t s))) = fixed_assets s"
  by (simp add: add_sale_record_def Let_def split: option.splits)

lemma inventory_register:
  "fixed_assets (snd (snd (submit_inventory now n q uc sp s))) = fixed_assets s"
  by (simp add: submit_inventory_def split: option.splits)

lemma apply_op_register:
  "register_later (fixed_assets s) (fixed_assets (apply_op op s))"
proof (cases op)
  case (Receivable d c t a m)
  then show ?thesis
    by (simp add: add_receivable_record_def Let_def register_later_refl)
next
  case (Payable d v a m)
  then show ?thesis
    by (simp add: add_payable_record_def Let_def register_later_refl)
next
  case (Sale now d i q c t)
  then show ?thesis
    by (simp add: sale_register register_later_refl)
next
  case (Acquire n c l d k sv ul)
  then show ?thesis
    by (simp add: asset_register register_later_refl register_later_append)
next
  case (Depreciate d)
  then show ?thesis
    by (simp add: depreciation_register register_later_refl register_later_depreciated)
next
  case (InventoryUpsert now n q uc sp)
  then show ?thesis
    by (simp add: inventory_register register_later_refl)
qed

lemma run_ops_register:
  "register_later (fixed_assets s) (fixed_assets (run_ops ops s))"
proof (induction ops arbitrary: s)
  case Nil
  show ?case by (simp add: register_later_refl)
next
  case (Cons op ops)
  show ?case
    using register_later_trans [OF apply_op_register [of s op] Cons.IH [of "apply_op op s"]]
    by simp
qed

lemma nonneg_depreciated:
  "nonneg_register xs \<Longrightarrow> nonneg_register (map spec_depreciated xs)"
  unfolding nonneg_register_def
proof (intro ballI impI)
  fix b
  assume inv: "\<forall>a\<in>set xs. fa_salvage_value a \<le> fa_cost a \<longrightarrow> 0 \<le> fa_accumulated_depreciation a"
    and b: "b \<in> set (map spec_depreciated xs)" and sc: "fa_salvage_value b \<le> fa_cost b"
  from b obtain a where a: "a \<in> set xs" "b = spec_depreciated a" by auto
  have later: "asset_later a b" using a(2) asset_later_depreciated by simp
  then have "b = a\<lparr>fa_accumulated_depreciation := fa_accumulated_depreciation b\<rparr>"
    by (simp add: asset_later_def)
  then have "fa_salvage_value b = fa_salvage_value a" "fa_cost b = fa_cost a"
    by (metis fixed_asset.select_convs fixed_asset.surjective fixed_asset.update_convs)+
  then have "fa_salvage_value a \<le> fa_cost a" using sc by simp
  then show "0 \<le> fa_accumulated_depreciation b"
    using inv a(1) later by (fastforce simp: asset_later_def)
qed

lemma apply_op_nonneg:
  "nonneg_register (fixed_assets s) \<Longrightarrow> nonneg_register (fixed_assets (apply_op op s))"
proof (cases op)
  case (Receivable d c t a m)
  then show ?thesis if "nonneg_register (fixed_assets s)"
    using that by (simp add: add_receivable_record_def Let_def)
next
  case (Payable d v a m)
  then show ?thesis if "nonneg_register (fixed_assets s)"
    using that by (simp add: add_payable_record_def Let_def)
next
  case (Sale now d i q c t)
  then show ?thesis if "nonneg_register (fixed_assets s)"
    using that by (simp add: sale_register)
next
  case (Acquire n c l d k sv ul)
  then show ?thesis if "nonneg_register (fixed_assets s)"
    using that by (simp add: asset_register nonneg_register_def)
next
  case (Depreciate d)
  then show ?thesis if "nonneg_register (fixed_assets s)"
    using that by (simp add: depreciation_register nonneg_depreciated)
next
  case (InventoryUpsert now n q uc sp)
  then show ?thesis if "nonneg_register (fixed_assets s)"
    using that by (simp add: inventory_register)
qed

lemma run_ops_nonneg:
  "nonneg_register (fixed_assets s) \<Longrightarrow> nonneg_register (fixed_assets (run_ops ops s))"
  by (induction ops arbitrary: s) (simp_all add: apply_op_nonneg)

lemma depreciated_session_value:
  "fst (calculate_and_post_depreciation year_end truck_session) = ''success''"
  "fixed_assets depreciated_session = [truck\<lparr>fa_accumulated_depreciation := 200\<rparr>]"
  by (simp_all add: depreciated_session_def depreciation_register truck_session_value
      calculate_and_post_depreciation_def depreciation_posted_def Let_def
      spec_depreciated_def spec_annual_depreciation_def truck_def)

text \<open>
  Claim C6, amended. For a fixed asset that meets the preconditions of the data model
  (cost > 0, salvage value \<ge> 0, useful life > 0) and whose salvage value does not exceed
  its cost: an accepted acquisition enters it with accumulated depreciation 0; in every
  session reached from the empty one its accumulated depreciation is \<ge> 0; across every
  sequence of operations, so across every sequence of depreciation runs, the asset keeps
  its place and its other fields and its accumulated depreciation does not decrease; and
  each successful depreciation run adds (cost - salvage) / useful life to it.
\<close>

theorem accumulated_depreciation_monotone:
  "(\<forall>a\<in>set (fixed_assets (run_ops ops empty_session)).
      data_model_asset a \<and> fa_salvage_value a \<le> fa_cost a \<longrightarrow>
        0 \<le> fa_accumulated_depreciation a)
   \<and> (\<forall>i<length (fixed_assets s).
        data_model_asset (fixed_assets s ! i)
        \<and> fa_salvage_value (fixed_assets s ! i) \<le> fa_cost (fixed_assets s ! i) \<longrightarrow>
          i < length (fixed_assets (run_ops ops s))
          \<and> fixed_assets (run_ops ops s) ! i
              = (fixed_assets s ! i)\<lparr>fa_accumulated_depreciation :=
                   fa_accumulated_depreciation (fixed_assets (run_ops ops s) ! i)\<rparr>
          \<and> fa_accumulated_depreciation (fixed_assets s ! i)
              \<le> fa_accumulated_depreciation (fixed_assets (run_ops ops s) ! i))
   \<and> (\<forall>i<length (fixed_assets s).
        data_model_asset (fixed_assets s ! i)
        \<and> fst (calculate_and_post_depreciation d s) = ''success'' \<longrightarrow>
          fa_accumulated_depreciation
              (fixed_assets (snd (snd (calculate_and_post_depreciation d s))) ! i)
            = fa_accumulated_depreciation (fixed_assets s ! i)
              + (fa_cost (fixed_assets s ! i) - fa_salvage_value (fixed_assets s ! i))
                  / of_int (fa_useful_life (fixed_assets s ! i)))
   \<and> (asset_name \<noteq> [] \<and> cost > 0 \<and> useful_life > 0 \<and> category \<noteq> [] \<and> location \<noteq> [] \<longrightarrow>
        (\<exists>a. fixed_assets (snd (snd (submit_asset asset_name category location acquired cost
                                       salvage useful_life s)))
                = fixed_assets s @ [a]
              \<and> fa_cost a = cost \<and> fa_salvage_value a = salvage
              \<and> fa_useful_life a = useful_life \<and> fa_accumulated_depreciation a = 0))"
proof (intro conjI)
  have "nonneg_register (fixed_assets (run_ops ops empty_session))"
    by (rule run_ops_nonneg) (simp add: nonneg_register_def empty_session_def)
  then show "\<forall>a\<in>set (fixed_assets (run_ops ops empty_session)).
      data_model_asset a \<and> fa_salvage_value a \<le> fa_cost a \<longrightarrow>
        0 \<le> fa_accumulated_depreciation a"
    by (simp add: nonneg_register_def)
next
  show "\<forall>i<length (fixed_assets s).
        data_model_asset (fixed_assets s ! i)
        \<and> fa_salvage_value (fixed_assets s ! i) \<le> fa_cost (fixed_assets s ! i) \<longrightarrow>
          i < length (fixed_assets (run_ops ops s))
          \<and> fixed_assets (run_ops ops s) ! i
              = (fixed_assets s ! i)\<lparr>fa_accumulated_depreciation :=
                   fa_accumulated_depreciation (fixed_assets (run_ops ops s) ! i)\<rparr>
          \<and> fa_accumulated_depreciation (fixed_assets s ! i)
              \<le> fa_accumulated_depreciation (fixed_assets (run_ops ops s) ! i)"
    using run_ops_register [of s ops]
    by (simp add: register_later_def asset_later_def)
next
  show "\<forall>i<length (fixed_assets s).
        data_model_asset (fixed_assets s ! i)
        \<and> fst (calculate_and_post_depreciation d s) = ''success'' \<longrightarrow>
          fa_accumulated_depreciation
              (fixed_assets (snd (snd (calculate_and_post_depreciation d s))) ! i)
            = fa_accumulated_depreciation (fixed_assets s ! i)
              + (fa_cost (fixed_assets s ! i) - fa_salvage_value (fixed_assets s ! i))
                  / of_int (fa_useful_life (fixed_assets s ! i))"
    by (simp add: depreciation_register data_model_asset_def spec_depreciated_def
        spec_annual_depreciation_def)
next
  show "asset_name \<noteq> [] \<and> cost > 0 \<and> useful_life > 0 \<and> category \<noteq> [] \<and> location \<noteq> [] \<longrightarrow>
        (\<exists>a. fixed_assets (snd (snd (submit_asset asset_name category location acquired cost
                                       salvage useful_life s)))
                = fixed_assets s @ [a]
              \<and> fa_cost a = cost \<and> fa_salvage_value a = salvage
              \<and> fa_useful_life a = useful_life \<and> fa_accumulated_depreciation a = 0)"
    by (simp add: asset_register)
qed

theorem accumulated_depreciation_monotone_witness:
  "(0::nat) < length (fixed_assets truck_session)
   \<and> data_model_asset (fixed_assets truck_session ! 0)
   \<and> fa_salvage_value (fixed_assets truck_session ! 0) \<le> fa_cost (fixed_assets truck_session ! 0)
   \<and> fst (calculate_and_post_depreciation year_end truck_session) = ''success''
   \<and> fa_accumulated_depreciation (fixed_assets truck_session ! 0) = 0
   \<and> fa_accumulated_depreciation (fixed_assets depreciated_session ! 0) = 0 + (1200 - 200) / 5
   \<and> fa_accumulated_depreciation (fixed_assets truck_session ! 0)
       \<le> fa_accumulated_depreciation
            (fixed_assets (run_ops [Depreciate year_end,
                                    Depreciate \<lparr>year = 2026, month = 12, day = 31\<rparr>]
                             truck_session) ! 0)
   \<and> list_all (\<lambda>a. 0 \<le> fa_accumulated_depreciation a)
        (fixed_assets (run_ops [Depreciate year_end] truck_session))
   \<and> (\<exists>a. fixed_assets (snd (snd (submit_asset ''Truck'' ''Vehicle'' ''HQ''
                                     \<lparr>year = 2025, month = 1, day = 15\<rparr> 1200 200 5
                                     empty_session)))
             = fixed_assets empty_session @ [a]
           \<and> fa_cost a = 1200 \<and> fa_salvage_value a = 200
           \<and> fa_useful_life a = 5 \<and> fa_accumulated_depreciation a = 0)"
proof -
  let ?ops = "[Depreciate year_end, Depreciate \<lparr>year = 2026, month = 12, day = 31\<rparr>]"
  let ?acq = "[Acquire ''Truck'' ''Vehicle'' ''HQ'' \<lparr>year = 2025, month = 1, day = 15\<rparr>
                 1200 200 5, Depreciate year_end]"
  have fa: "fixed_assets truck_session = [truck]"
    by (simp add: truck_session_value)
  have h0: "(0::nat) < length (fixed_assets truck_session)"
    by (simp add: fa)
  have h1: "data_model_asset (fixed_assets truck_session ! 0)
      \<and> fa_salvage_value (fixed_assets truck_session ! 0) \<le> fa_cost (fixed_assets truck_session ! 0)"
    by (simp add: fa data_model_asset_def truck_def)
  note ok = depreciated_session_value(1)
  have start: "fa_accumulated_depreciation (fixed_assets truck_session ! 0) = 0"
    by (simp add: fa truck_def)
  have reach: "run_ops ?acq empty_session = depreciated_session"
    "run_ops [Depreciate year_end] truck_session = depreciated_session"
    by (simp_all add: truck_session_def depreciated_session_def)
  note inst = accumulated_depreciation_monotone
                [where ops = ?ops and s = truck_session and d = year_end]
  note inst0 = accumulated_depreciation_monotone [where ops = ?acq]
  have run: "fa_accumulated_depreciation (fixed_assets depreciated_session ! 0)
               = 0 + (1200 - 200) / 5"
    using inst h0 h1 ok start
    by (simp add: depreciated_session_def fa truck_def del: One_nat_def)
  have mono: "fa_accumulated_depreciation (fixed_assets truck_session ! 0)
       \<le> fa_accumulated_depreciation (fixed_assets (run_ops ?ops truck_session) ! 0)"
    using inst h0 h1 by blast
  have "\<forall>a\<in>set (fixed_assets depreciated_session).
      data_model_asset a \<and> fa_salvage_value a \<le> fa_cost a \<longrightarrow>
        0 \<le> fa_accumulated_depreciation a"
    using inst0 unfolding reach by blast
  then have nonneg: "list_all (\<lambda>a. 0 \<le> fa_accumulated_depreciation a)
        (fixed_assets (run_ops [Depreciate year_end] truck_session))"
    unfolding reach
    by (simp add: depreciated_session_value(2) data_model_asset_def truck_def)
  have acq: "\<exists>a. fixed_assets (snd (snd (submit_asset ''Truck'' ''Vehicle'' ''HQ''
                                     \<lparr>year = 2025, month = 1, day = 15\<rparr> 1200 200 5
                                     empty_session)))
             = fixed_assets empty_session @ [a]
           \<and> fa_cost a = 1200 \<and> fa_salvage_value a = 200
           \<and> fa_useful_life a = 5 \<and> fa_accumulated_depreciation a = 0"
    using accumulated_depreciation_monotone
            [where s = empty_session and asset_name = "''Truck''" and cost = 1200
               and useful_life = 5 and category = "''Vehicle''" and location = "''HQ''"
               and acquired = "\<lparr>year = 2025, month = 1, day = 15\<rparr>" and salvage = 200]
    by simp
  show ?thesis
    using h0 h1 ok start run mono nonneg acq by blast
qed

section \<open>The income statement\<close>

lemma widget_sale_session_value:
  "widget_sale_session =
     \<lparr>receivables = [], payables = [],
      inventory = [\<lparr>inv_item = ''Widget'', inv_quantity = 7, inv_unit_cost = 5,
                    inv_selling_price = 8, inv_last_updated = ''2025-01-15 10:00:00''\<rparr>],
      fixed_assets = [],
      general_ledger =
        [\<lparr>gl_date = \<lparr>year = 2025, month = 1, day = 15\<rparr>, gl_account = ''Cash'',
          gl_debit = 24, gl_credit = 0,
          gl_description = ''Cash Sale of 3 units of Widget to Bob''\<rparr>,
         \<lparr>gl_date = \<lparr>year = 2025, month = 1, day = 15\<rparr>, gl_account = ''Sales Revenue'',
          gl_debit = 0, gl_credit = 24,
          gl_description = ''Sale of 3 units of Widget to Bob''\<rparr>,
         \<lparr>gl_date = \<lparr>year = 2025, month = 1, day = 15\<rparr>, gl_account = ''Cost of Goods Sold'',
          gl_debit = 15, gl_credit = 0,
          gl_description = ''COGS for 3 units of Widget sold to Bob''\<rparr>,
         \<lparr>gl_date = \<lparr>year = 2025, month = 1, day = 15\<rparr>, gl_account = ''Inventory'',
          gl_debit = 0, gl_credit = 15,
          gl_description = ''Inventory reduction for 3 units of Widget sold to Bob''\<rparr>]\<rparr>"
  by code_simp

text \<open>
  Claim C8 fails as stated: for the empty ledger the income statement has no rows at all,
  and after Scenario 2 the second, fourth and fifth rows carry the sums with a minus sign
  (the debits to Cost of Goods Sold sum to 15, the row says -15).
\<close>

theorem income_statement_not_plain_sums:
  "generate_income_statement [] = []
   \<and> account_debit ''Cost of Goods Sold'' (general_ledger widget_sale_session) = 15
   \<and> generate_income_statement (general_ledger widget_sale_session)
       = [(''Sales Revenue'', 24), (''Less: Cost of Goods Sold'', - 15), (''Gross Profit'', 9),
          (''Less: Operating Expenses'', 0), (''Less: Depreciation Expense'', 0),
          (''Net Income (Loss)'', 9)]"
  by (simp add: widget_sale_session_value generate_income_statement_def Let_def
      account_debit_def account_credit_def)

text \<open>
  Claim C8, amended. For the empty ledger the income statement has no rows. For every
  other ledger it has six rows, in this order: Sales Revenue, the sum of the credits to
  Sales Revenue; Less: Cost of Goods Sold, minus the sum of the debits to Cost of Goods
  Sold; Gross Profit, revenue minus cost of goods sold; Less: Operating Expenses, minus
  the sum of the debits to Expenses; Less: Depreciation Expense, minus the sum of the
  debits to Depreciation Expense; Net Income (Loss), gross profit minus operating expenses
  minus depreciation expense. After Scenario 2 the Gross Profit row is 9.
\<close>

theorem income_statement_rows:
  "generate_income_statement [] = []
   \<and> (gl \<noteq> [] \<longrightarrow>
        generate_income_statement gl =
          [(''Sales Revenue'',
              sum_list (map gl_credit (filter (\<lambda>e. gl_account e = ''Sales Revenue'') gl))),
           (''Less: Cost of Goods Sold'',
              - sum_list (map gl_debit (filter (\<lambda>e. gl_account e = ''Cost of Goods Sold'') gl))),
           (''Gross Profit'',
              sum_list (map gl_credit (filter (\<lambda>e. gl_account e = ''Sales Revenue'') gl))
              - sum_list (map gl_debit (filter (\<lambda>e. gl_account e = ''Cost of Goods Sold'') gl))),
           (''Less: Operating Expenses'',
              - sum_list (map gl_debit (filter (\<lambda>e. gl_account e = ''Expenses'') gl))),
           (''Less: Depreciation Expense'',
              - sum_list (map gl_debit (filter (\<lambda>e. gl_account e = ''Depreciation Expense'') gl))),
           (''Net Income (Loss)'',
              (sum_list (map gl_credit (filter (\<lambda>e. gl_account e = ''Sales Revenue'') gl))
               - sum_list (map gl_debit (filter (\<lambda>e. gl_account e = ''Cost of Goods Sold'') gl)))
              - sum_list (map gl_debit (filter (\<lambda>e. gl_account e = ''Expenses'') gl))
              - sum_list (map gl_debit (filter (\<lambda>e. gl_account e = ''Depreciation Expense'') gl)))])
   \<and> map_of (generate_income_statement (general_ledger widget_sale_session)) ''Gross Profit''
       = Some 9"
  by (simp add: generate_income_statement_def Let_def account_debit_def account_credit_def
      widget_sale_session_value)

theorem income_statement_rows_witness:
  "general_ledger widget_sale_session \<noteq> []
   \<and> map snd (generate_income_statement (general_ledger widget_sale_session))
       = [24, - 15, 24 - 15, - 0, - 0, 24 - 15 - 0 - 0]"
proof -
  have ne: "general_ledger widget_sale_session \<noteq> []"
    by (simp add: widget_sale_session_value)
  from income_statement_rows [of "general_ledger widget_sale_session"] ne
  have "generate_income_statement (general_ledger widget_sale_session) =
          [(''Sales Revenue'',
              sum_list (map gl_credit (filter (\<lambda>e. gl_account e = ''Sales Revenue'')
                 (general_ledger widget_sale_session)))),
           (''Less: Cost of Goods Sold'',
              - sum_list (map gl_debit (filter (\<lambda>e. gl_account e = ''Cost of Goods Sold'')
                 (general_ledger widget_sale_session)))),
           (''Gross Profit'',
              sum_list (map gl_credit (filter (\<lambda>e. gl_account e = ''Sales Revenue'')
                 (general_ledger widget_sale_session)))
              - sum_list (map gl_debit (filter (\<lambda>e. gl_account e = ''Cost of Goods Sold'')
                 (general_ledger widget_sale_session)))),
           (''Less: Operating Expenses'',
              - sum_list (map gl_debit (filter (\<lambda>e. gl_account e = ''Expenses'')
                 (general_ledger widget_sale_session)))),
           (''Less: Depreciation Expense'',
              - sum_list (map gl_debit (filter (\<lambda>e. gl_account e = ''Depreciation Expense'')
                 (general_ledger widget_sale_session)))),
           (''Net Income (Loss)'',
              (sum_list (map gl_credit (filter (\<lambda>e. gl_account e = ''Sales Revenue'')
                 (general_ledger widget_sale_session)))
               - sum_list (map gl_debit (filter (\<lambda>e. gl_account e = ''Cost of Goods Sold'')
                 (general_ledger widget_sale_session))))
              - sum_list (map gl_debit (filter (\<lambda>e. gl_account e = ''Expenses'')
                 (general_ledger widget_sale_session)))
              - sum_list (map gl_debit (filter (\<lambda>e. gl_account e = ''Depreciation Expense'')
                 (general_ledger widget_sale_session))))]"
    by blast
  then have "map snd (generate_income_statement (general_ledger widget_sale_session))
       = [24, - 15, 24 - 15, - 0, - 0, 24 - 15 - 0 - 0]"
    by (simp add: widget_sale_session_value)
  with ne show ?thesis by simp
qed

section \<open>Ratios\<close>

text \<open>
  Claim C9. In the ratios computed from any pair of uploaded snapshots, Gross and Net
  Profit Margin are 0 when revenue is 0; Current Ratio and Quick Ratio are infinite when
  the Accounts Payable amount (the current liabilities) is 0; Debt-to-Equity is infinite
  when the owner's equity is 0; Accounts Receivable Turnover (Days) is 0 when revenue or
  receivables are 0. For the snapshots of Scenario 5, Gross Profit Margin is 0.6 and
  Current Ratio is infinite.
\<close>

theorem ratio_fallbacks:
  "(item_sum is_df ''Sales Revenue'' = 0 \<longrightarrow>
      ratio (calculate_ratios is_df bs_df) ''Gross Profit Margin'' = Some (Fin 0)
      \<and> ratio (calculate_ratios is_df bs_df) ''Net Profit Margin'' = Some (Fin 0))
   \<and> (item_sum bs_df ''Accounts Payable'' = 0 \<longrightarrow>
        ratio (calculate_ratios is_df bs_df) ''Current Ratio'' = Some PosInf
        \<and> ratio (calculate_ratios is_df bs_df) ''Quick Ratio'' = Some PosInf)
   \<and> (item_sum bs_df (''Owner'' @ [CHR 0x27] @ ''s Equity (Simplified)'') = 0 \<longrightarrow>
        ratio (calculate_ratios is_df bs_df) ''Debt-to-Equity Ratio'' = Some PosInf)
   \<and> (item_sum is_df ''Sales Revenue'' = 0 \<or> item_sum bs_df ''Accounts Receivable'' = 0 \<longrightarrow>
        ratio (calculate_ratios is_df bs_df) ''Accounts Receivable Turnover (Days)''
          = Some (Fin 0))
   \<and> ratio (calculate_ratios scenario5_is scenario5_bs) ''Gross Profit Margin''
       = Some (Fin (6 / 10))
   \<and> ratio (calculate_ratios scenario5_is scenario5_bs) ''Current Ratio'' = Some PosInf"
proof (intro conjI impI)
  show "ratio (calculate_ratios scenario5_is scenario5_bs) ''Gross Profit Margin''
          = Some (Fin (6 / 10))"
    by (simp add: ratio_def calculate_ratios_def Let_def item_sum_def scenario5_is_def)
  show "ratio (calculate_ratios scenario5_is scenario5_bs) ''Current Ratio'' = Some PosInf"
    by (simp add: ratio_def calculate_ratios_def Let_def item_sum_def scenario5_bs_def)
qed (auto simp: ratio_def calculate_ratios_def Let_def)

theorem ratio_fallbacks_witness:
  "item_sum idle_is ''Sales Revenue'' = 0
   \<and> item_sum idle_bs ''Accounts Payable'' = 0
   \<and> item_sum idle_bs (''Owner'' @ [CHR 0x27] @ ''s Equity (Simplified)'') = 0
   \<and> item_sum idle_bs ''Accounts Receivable'' = 0
   \<and> ratio (calculate_ratios idle_is idle_bs) ''Gross Profit Margin'' = Some (Fin 0)
   \<and> ratio (calculate_ratios idle_is idle_bs) ''Net Profit Margin'' = Some (Fin 0)
   \<and> ratio (calculate_ratios idle_is idle_bs) ''Current Ratio'' = Some PosInf
   \<and> ratio (calculate_ratios idle_is idle_bs) ''Quick Ratio'' = Some PosInf
   \<and> ratio (calculate_ratios idle_is idle_bs) ''Debt-to-Equity Ratio'' = Some PosInf
   \<and> ratio (calculate_ratios idle_is idle_bs) ''Accounts Receivable Turnover (Days)''
       = Some (Fin 0)"
proof -
  have h: "item_sum idle_is ''Sales Revenue'' = 0"
    "item_sum idle_bs ''Accounts Payable'' = 0"
    "item_sum idle_bs (''Owner'' @ [CHR 0x27] @ ''s Equity (Simplified)'') = 0"
    "item_sum idle_bs ''Accounts Receivable'' = 0"
    by (simp_all add: item_sum_def idle_is_def idle_bs_def)
  show ?thesis
    using ratio_fallbacks [of idle_is idle_bs] h by blast
qed

section \<open>The forecast\<close>

lemma forecast_year_row_gap:
  "fb_total_assets (fst (snd (forecast_year i ny g c e p)))
     - fb_total_liabilities_equity (fst (snd (forecast_year i ny g c e p))) = prev_gap p"
  by (simp add: forecast_year_def Let_def prev_gap_def)

lemma forecast_year_next_gap:
  "prev_gap (snd (snd (forecast_year i ny g c e p))) = prev_gap p"
  by (simp add: forecast_year_def Let_def prev_gap_def)

lemma forecast_loop_Suc:
  "forecast_loop (Suc n) i ny g c e p =
     (fst (forecast_year i ny g c e p)
        # fst (forecast_loop n (i + 1) ny g c e (snd (snd (forecast_year i ny g c e p)))),
      fst (snd (forecast_year i ny g c e p))
        # snd (forecast_loop n (i + 1) ny g c e (snd (snd (forecast_year i ny g c e p)))))"
  by (simp split: prod.splits)

lemma forecast_loop_gap:
  "\<forall>row\<in>set (snd (forecast_loop n i ny g c e p)).
      fb_total_assets row - fb_total_liabilities_equity row = prev_gap p"
proof (induction n arbitrary: i p)
  case 0
  show ?case by simp
next
  case (Suc n)
  show ?case
    unfolding forecast_loop_Suc
    using Suc.IH [of "i + 1" "snd (snd (forecast_year i ny g c e p))"]
    by (simp add: forecast_year_row_gap forecast_year_next_gap)
qed

lemma forecast_loop_length:
  "length (fst (forecast_loop n i ny g c e p)) = n \<and> length (snd (forecast_loop n i ny g c e p)) = n"
proof (induction n arbitrary: i p)
  case 0
  show ?case by simp
next
  case (Suc n)
  show ?case
    unfolding forecast_loop_Suc
    using Suc.IH [of "i + 1" "snd (snd (forecast_year i ny g c e p))"] by simp
qed

lemma item_sum_absent: "name \<notin> set (map fst df) \<Longrightarrow> item_sum df name = 0"
proof -
  assume "name \<notin> set (map fst df)"
  then have "filter (\<lambda>r. fst r = name) df = []"
    by (auto simp: filter_empty_conv)
  then show ?thesis by (simp add: item_sum_def)
qed

text \<open>
  Claim C10. For non-empty uploaded snapshots the forecast returns one balance-sheet row
  per forecast year, and in every one of them Total Assets minus Total Liabilities &
  Equity equals the same difference of the uploaded balance sheet: (Cash + Accounts
  Receivable + Inventory + Fixed Assets (Net)) minus (Accounts Payable + Long-term Debt +
  Owner's Equity). So if the uploaded balance sheet balances, every forecast year balances.
\<close>

theorem forecast_keeps_balance_gap:
  "is_df \<noteq> [] \<and> bs_df \<noteq> [] \<longrightarrow>
     (\<exists>forecast_is forecast_bs.
        forecast_financials now_year is_df bs_df years revenue_growth cogs_pct_revenue
            op_exp_pct_revenue = Some (forecast_is, forecast_bs)
        \<and> length forecast_bs = nat years
        \<and> (\<forall>row\<in>set forecast_bs.
              fb_total_assets row - fb_total_liabilities_equity row
                = (item_sum bs_df ''Cash'' + item_sum bs_df ''Accounts Receivable''
                     + item_sum bs_df ''Inventory'' + item_sum bs_df ''Fixed Assets (Net)'')
                  - (item_sum bs_df ''Accounts Payable'' + item_sum bs_df ''Long-term Debt''
                     + item_sum bs_df (''Owner'' @ [CHR 0x27] @ ''s Equity (Simplified)'')))
        \<and> ((item_sum bs_df ''Cash'' + item_sum bs_df ''Accounts Receivable''
                + item_sum bs_df ''Inventory'' + item_sum bs_df ''Fixed Assets (Net)''
              = item_sum bs_df ''Accounts Payable'' + item_sum bs_df ''Long-term Debt''
                + item_sum bs_df (''Owner'' @ [CHR 0x27] @ ''s Equity (Simplified)'')) \<longrightarrow>
            (\<forall>row\<in>set forecast_bs.
               fb_total_assets row = fb_total_liabilities_equity row)))"
proof
  assume ne: "is_df \<noteq> [] \<and> bs_df \<noteq> []"
  define p where "p =
    \<lparr>prev_revenue = item_sum is_df ''Sales Revenue'',
     prev_cogs = item_sum is_df ''Cost of Goods Sold'',
     prev_op_exp = item_sum is_df ''Operating Expenses'',
     prev_net_income = item_sum is_df ''Net Income (Loss)'',
     prev_cash = item_sum bs_df ''Cash'',
     prev_ar = item_sum bs_df ''Accounts Receivable'',
     prev_inv = item_sum bs_df ''Inventory'',
     prev_fixed_assets_net = item_sum bs_df ''Fixed Assets (Net)'',
     prev_ap = item_sum bs_df ''Accounts Payable'',
     prev_lt_debt = (if ''Long-term Debt'' \<in> set (map fst bs_df)
                     then item_sum bs_df ''Long-term Debt'' else 0),
     prev_owner_equity =
       item_sum bs_df (''Owner'' @ [CHR 0x27] @ ''s Equity (Simplified)'')\<rparr>"
  define res where "res = forecast_loop (nat years) 1 now_year revenue_growth cogs_pct_revenue
                op_exp_pct_revenue p"
  have ff: "forecast_financials now_year is_df bs_df years revenue_growth cogs_pct_revenue
            op_exp_pct_revenue = Some (fst res, snd res)"
    using ne by (simp add: forecast_financials_def res_def p_def)
  have ltd: "prev_lt_debt p = item_sum bs_df ''Long-term Debt''"
    using item_sum_absent [of "''Long-term Debt''" bs_df] by (simp add: p_def)
  have gap: "prev_gap p
               = (item_sum bs_df ''Cash'' + item_sum bs_df ''Accounts Receivable''
                     + item_sum bs_df ''Inventory'' + item_sum bs_df ''Fixed Assets (Net)'')
                  - (item_sum bs_df ''Accounts Payable'' + item_sum bs_df ''Long-term Debt''
                     + item_sum bs_df (''Owner'' @ [CHR 0x27] @ ''s Equity (Simplified)''))"
    unfolding prev_gap_def ltd by (simp add: p_def)
  have len: "length (snd res) = nat years"
    unfolding res_def using forecast_loop_length by blast
  have rows: "\<forall>row\<in>set (snd res).
      fb_total_assets row - fb_total_liabilities_equity row = prev_gap p"
    unfolding res_def by (rule forecast_loop_gap)
  show "\<exists>forecast_is forecast_bs.
        forecast_financials now_year is_df bs_df years revenue_growth cogs_pct_revenue
            op_exp_pct_revenue = Some (forecast_is, forecast_bs)
        \<and> length forecast_bs = nat years
        \<and> (\<forall>row\<in>set forecast_bs.
              fb_total_assets row - fb_total_liabilities_equity row
                = (item_sum bs_df ''Cash'' + item_sum bs_df ''Accounts Receivable''
                     + item_sum bs_df ''Inventory'' + item_sum bs_df ''Fixed Assets (Net)'')
                  - (item_sum bs_df ''Accounts Payable'' + item_sum bs_df ''Long-term Debt''
                     + item_sum bs_df (''Owner'' @ [CHR 0x27] @ ''s Equity (Simplified)'')))
        \<and> ((item_sum bs_df ''Cash'' + item_sum bs_df ''Accounts Receivable''
                + item_sum bs_df ''Inventory'' + item_sum bs_df ''Fixed Assets (Net)''
              = item_sum bs_df ''Accounts Payable'' + item_sum bs_df ''Long-term Debt''
                + item_sum bs_df (''Owner'' @ [CHR 0x27] @ ''s Equity (Simplified)'')) \<longrightarrow>
            (\<forall>row\<in>set forecast_bs.
               fb_total_assets row = fb_total_liabilities_equity row))"
  proof (intro exI conjI impI)
    show "forecast_financials now_year is_df bs_df years revenue_growth cogs_pct_revenue
            op_exp_pct_revenue = Some (fst res, snd res)"
      by (rule ff)
    show "length (snd res) = nat years" by (rule len)
    show "\<forall>row\<in>set (snd res).
              fb_total_assets row - fb_total_liabilities_equity row
                = (item_sum bs_df ''Cash'' + item_sum bs_df ''Accounts Receivable''
                     + item_sum bs_df ''Inventory'' + item_sum bs_df ''Fixed Assets (Net)'')
                  - (item_sum bs_df ''Accounts Payable'' + item_sum bs_df ''Long-term Debt''
                     + item_sum bs_df (''Owner'' @ [CHR 0x27] @ ''s Equity (Simplified)''))"
      using rows unfolding gap .
  next
    assume bal: "item_sum bs_df ''Cash'' + item_sum bs_df ''Accounts Receivable''
                + item_sum bs_df ''Inventory'' + item_sum bs_df ''Fixed Assets (Net)''
              = item_sum bs_df ''Accounts Payable'' + item_sum bs_df ''Long-term Debt''
                + item_sum bs_df (''Owner'' @ [CHR 0x27] @ ''s Equity (Simplified)'')"
    then have "prev_gap p = 0" unfolding gap by simp
    then show "\<forall>row\<in>set (snd res). fb_total_assets row = fb_total_liabilities_equity row"
      using rows by simp
  qed
qed

theorem forecast_keeps_balance_gap_witness:
  "scenario5_is \<noteq> [] \<and> scenario5_bs \<noteq> []
   \<and> item_sum scenario5_bs ''Cash'' + item_sum scenario5_bs ''Accounts Receivable''
         + item_sum scenario5_bs ''Inventory'' + item_sum scenario5_bs ''Fixed Assets (Net)''
       = item_sum scenario5_bs ''Accounts Payable'' + item_sum scenario5_bs ''Long-term Debt''
         + item_sum scenario5_bs (''Owner'' @ [CHR 0x27] @ ''s Equity (Simplified)'')
   \<and> (\<exists>forecast_is forecast_bs.
         forecast_financials 2025 scenario5_is scenario5_bs 3 5 40 30
           = Some (forecast_is, forecast_bs)
         \<and> length forecast_bs = 3
         \<and> list_all (\<lambda>row. fb_total_assets row = fb_total_liabilities_equity row)
              forecast_bs)"
proof -
  have ne: "scenario5_is \<noteq> [] \<and> scenario5_bs \<noteq> []"
    by (simp add: scenario5_is_def scenario5_bs_def)
  have bal: "item_sum scenario5_bs ''Cash'' + item_sum scenario5_bs ''Accounts Receivable''
         + item_sum scenario5_bs ''Inventory'' + item_sum scenario5_bs ''Fixed Assets (Net)''
       = item_sum scenario5_bs ''Accounts Payable'' + item_sum scenario5_bs ''Long-term Debt''
         + item_sum scenario5_bs (''Owner'' @ [CHR 0x27] @ ''s Equity (Simplified)'')"
    by (simp add: item_sum_def scenario5_bs_def)
  from forecast_keeps_balance_gap
         [where is_df = scenario5_is and bs_df = scenario5_bs and now_year = 2025
            and years = 3 and revenue_growth = 5 and cogs_pct_revenue = 40
            and op_exp_pct_revenue = 30] ne bal
  obtain forecast_is forecast_bs where
    "forecast_financials 2025 scenario5_is scenario5_bs 3 5 40 30
       = Some (forecast_is, forecast_bs)"
    "length forecast_bs = nat 3"
    "\<forall>row\<in>set forecast_bs. fb_total_assets row = fb_total_liabilities_equity row"
    by blast
  then have "\<exists>forecast_is forecast_bs.
         forecast_financials 2025 scenario5_is scenario5_bs 3 5 40 30
           = Some (forecast_is, forecast_bs)
         \<and> length forecast_bs = 3
         \<and> list_all (\<lambda>row. fb_total_assets row = fb_total_liabilities_equity row)
              forecast_bs"
    by (simp add: list_all_iff)
  with ne bal show ?thesis by blast
qed

end
